theory Spec2Isabelle
  imports Main "HOL-Library.Multiset" "HOL-Library.Char_ord" "HOL-Library.List_Lexorder"
begin

section \<open>PubSummarizer: the exporters of \<^verbatim>\<open>src/exporter.py\<close>\<close>

text \<open>
  Text is modelled as \<open>string\<close>, one \<open>char\<close> per character, a \<open>char\<close> being the
  character with that code point (0 to 255). The case mapping, the whitespace test
  and the order of characters below are those of Python on these characters. The one
  character of the source beyond them, the page emoji of the Obsidian link line, is
  carried as the four bytes of its UTF-8 encoding, the encoding every exporter opens
  its output file with.
\<close>

subsection \<open>The string operations of Python that the exporters call\<close>

text \<open>
  \<^verbatim>\<open>c.lower()\<close>: the capital letters are A to Z (65 to 90) and the accented
  capitals 192 to 222 but for the multiplication sign 215; the small letter is 32
  further on.
\<close>

definition lower_char :: "char \<Rightarrow> char" where
  "lower_char c =
     (let n = (of_char c :: nat)
      in if (65 \<le> n \<and> n \<le> 90) \<or> (192 \<le> n \<and> n \<le> 222 \<and> n \<noteq> 215)
         then char_of (n + 32) else c)"

text \<open>\<^verbatim>\<open>s.lower()\<close>\<close>

definition lower :: "string \<Rightarrow> string" where
  "lower s = map lower_char s"

text \<open>\<^verbatim>\<open>s.startswith(p)\<close>\<close>

definition startswith :: "string \<Rightarrow> string \<Rightarrow> bool" where
  "startswith s p = (take (length p) s = p)"

text \<open>
  \<^verbatim>\<open>s.replace(old, new)\<close>: the occurrences of \<open>old\<close> are found from the left and do
  not overlap. With an empty \<open>old\<close> Python puts \<open>new\<close> before every character and
  at the end.
\<close>

function replace_from :: "string \<Rightarrow> string \<Rightarrow> string \<Rightarrow> string" where
  "replace_from old new [] = []"
| "replace_from old new (c # cs) =
     (if old \<noteq> [] \<and> startswith (c # cs) old
      then new @ replace_from old new (drop (length old) (c # cs))
      else c # replace_from old new cs)"
  by pat_completeness auto
termination
  by (relation "measure (\<lambda>(old, new, s). length s)") auto

definition replace :: "string \<Rightarrow> string \<Rightarrow> string \<Rightarrow> string" where
  "replace s old new =
     (if old = [] then new @ concat (map (\<lambda>c. c # new) s)
      else replace_from old new s)"

text \<open>
  \<^verbatim>\<open>s.split(sep)\<close> for a separator of one character, the only kind the exporters
  use (\<^verbatim>\<open>'['\<close> and \<^verbatim>\<open>','\<close>). The result is never empty: a string without the
  separator is its own single piece.
\<close>

fun split :: "string \<Rightarrow> char \<Rightarrow> string list" where
  "split [] sep = [[]]"
| "split (c # cs) sep =
     (if c = sep then [] # split cs sep
      else (case split cs sep of
              [] \<Rightarrow> [[c]]
            | piece # pieces \<Rightarrow> (c # piece) # pieces))"

text \<open>
  \<^verbatim>\<open>c.isspace()\<close> and \<^verbatim>\<open>s.strip()\<close>: the whitespace characters are the
  controls 9 to 13 and 28 to 31, the space, the next-line control 133 and the
  no-break space 160.
\<close>

definition isspace :: "char \<Rightarrow> bool" where
  "isspace c =
     (let n = (of_char c :: nat)
      in (9 \<le> n \<and> n \<le> 13) \<or> (28 \<le> n \<and> n \<le> 32) \<or> n = 133 \<or> n = 160)"

definition strip :: "string \<Rightarrow> string" where
  "strip s = rev (dropWhile isspace (rev (dropWhile isspace s)))"

text \<open>\<^verbatim>\<open>sep.join(xs)\<close>\<close>

fun join :: "string \<Rightarrow> string list \<Rightarrow> string" where
  "join sep [] = []"
| "join sep [x] = x"
| "join sep (x # y # ys) = x @ sep @ join sep (y # ys)"

text \<open>
  \<^verbatim>\<open>re.sub(r'(?i)<pat>', '', s)\<close> for a pattern of literal characters: every
  occurrence of \<open>pat\<close>, compared without regard to letter case, is deleted; the
  scan goes from the left and resumes after each occurrence. In the three patterns
  of the source the closing bracket stands outside a character class, so it is a
  literal character too.
\<close>

definition match_ci :: "string \<Rightarrow> string \<Rightarrow> bool" where
  "match_ci pat s = (length pat \<le> length s \<and> lower (take (length pat) s) = lower pat)"

function re_sub_ci :: "string \<Rightarrow> string \<Rightarrow> string" where
  "re_sub_ci pat [] = []"
| "re_sub_ci pat (c # cs) =
     (if pat \<noteq> [] \<and> match_ci pat (c # cs)
      then re_sub_ci pat (drop (length pat) (c # cs))
      else c # re_sub_ci pat cs)"
  by pat_completeness auto
termination
  by (relation "measure (\<lambda>(pat, s). length s)") auto

text \<open>The truth value of an optional string: \<^verbatim>\<open>None\<close> and \<^verbatim>\<open>''\<close> are false.\<close>

definition truthy :: "string option \<Rightarrow> bool" where
  "truthy s = (case s of None \<Rightarrow> False | Some t \<Rightarrow> t \<noteq> [])"

subsection \<open>Paper records\<close>

record paper =
  title :: string
  summary :: "string option"
  pdf_url :: "string option"

text \<open>
  The first two statements under \<^verbatim>\<open>if paper.summary:\<close>, the same in the three
  exporters: the emphasis markers are removed, then the text is cut at every opening
  bracket.
\<close>

definition clean_summary :: "string \<Rightarrow> string" where
  "clean_summary s = replace (replace s ''**'' '''') ''__'' ''''"

definition sections :: "string \<Rightarrow> string list" where
  "sections s = split (clean_summary s) CHR ''[''"

subsection \<open>MarkdownExporter\<close>

text \<open>The body of the loop over the sections: \<open>md_text\<close> grows by one subsection for
  every section that starts with a label.\<close>

definition md_section :: "string \<Rightarrow> string \<Rightarrow> string" where
  "md_section md_text section =
     (let section_lower = lower section
      in if startswith section_lower ''topics:]'' then
           (let topics = strip (re_sub_ci ''Topics:]'' section)
            in md_text @ ''### Topics\<newline>\<newline>'' @ topics @ ''\<newline>\<newline>'')
         else if startswith section_lower ''tl;dr:]'' then
           (let tldr = strip (re_sub_ci ''TL;DR:]'' section)
            in md_text @ ''### TL;DR\<newline>\<newline>'' @ tldr @ ''\<newline>\<newline>'')
         else if startswith section_lower ''summary:]'' then
           (let summ = strip (re_sub_ci ''Summary:]'' section)
            in md_text @ ''### Summary\<newline>\<newline>'' @ summ @ ''\<newline>\<newline>'')
         else md_text)"

definition md_format_paper :: "paper \<Rightarrow> string" where
  "md_format_paper p =
     (let md_text = ''## '' @ title p @ ''\<newline>\<newline>'';
          md_text = (if truthy (summary p)
                     then foldl md_section md_text (sections (the (summary p)))
                     else md_text);
          md_text = (if truthy (pdf_url p)
                     then md_text @ ''**Paper URL**: ['' @ the (pdf_url p) @ '']('' @ the (pdf_url p) @ '')\<newline>\<newline>''
                     else md_text)
      in md_text @ ''---\<newline>\<newline>'')"

text \<open>
  \<^verbatim>\<open>sorted(papers, key=lambda x: x.title.lower())\<close>: strings compare character by
  character (a proper prefix comes first), and the sort is stable, as \<open>sort_key\<close> is.
\<close>

definition sorted_papers :: "paper list \<Rightarrow> paper list" where
  "sorted_papers papers = sort_key (\<lambda>x. lower (title x)) papers"

text \<open>The clock is read by the caller: \<open>now\<close> is the text of
  \<^verbatim>\<open>datetime.now().strftime('%Y-%m-%d %H:%M:%S')\<close>.\<close>

definition md_generate_markdown :: "string \<Rightarrow> paper list \<Rightarrow> string \<Rightarrow> string" where
  "md_generate_markdown now papers ttl =
     (let papers = sorted_papers papers;
          md_content = ''# '' @ ttl @ ''\<newline>\<newline>'';
          md_content = md_content @ ''*Generated on '' @ now
             @ '' by [PubSummarizer](https://github.com/Logan-Lin/PubSummarizer)*\<newline>\<newline>''
      in foldl (\<lambda>md_content p. md_content @ md_format_paper p) md_content papers)"

subsection \<open>ObsidianExporter\<close>

text \<open>The tag of one topic: the body of the loop over \<open>topic_list\<close>.\<close>

definition topic_tag :: "string \<Rightarrow> string" where
  "topic_tag topic =
     (let topic_clean = replace (replace topic '' '' ''-'') [CHR 0x27] []
      in ''#'' @ lower topic_clean)"

definition obs_section :: "string \<Rightarrow> string \<Rightarrow> string" where
  "obs_section md_text section =
     (let section_lower = lower section
      in if startswith section_lower ''topics:]'' then
           (let topics = strip (re_sub_ci ''Topics:]'' section);
                topic_list = map strip (split topics CHR '','');
                md_text = md_text @ ''**Topics:** '';
                topic_tags = map topic_tag topic_list
            in md_text @ join '', '' topic_tags @ ''\<newline>\<newline>'')
         else if startswith section_lower ''tl;dr:]'' then
           (let tldr = strip (re_sub_ci ''TL;DR:]'' section)
            in md_text @ ''#### TL;DR\<newline>\<newline>'' @ tldr @ ''\<newline>\<newline>'')
         else if startswith section_lower ''summary:]'' then
           (let summ = strip (re_sub_ci ''Summary:]'' section)
            in md_text @ ''#### Summary\<newline>\<newline>'' @ summ @ ''\<newline>\<newline>'')
         else md_text)"

text \<open>The page emoji U+1F4C4 in front of the link, in UTF-8.\<close>

definition page_emoji :: string where
  "page_emoji = [CHR 0xF0, CHR 0x9F, CHR 0x93, CHR 0x84]"

definition obs_format_paper :: "paper \<Rightarrow> string" where
  "obs_format_paper p =
     (let md_text = ''---\<newline>\<newline>'';
          md_text = md_text @ ''### '' @ title p @ ''\<newline>\<newline>'';
          md_text = (if truthy (summary p)
                     then foldl obs_section md_text (sections (the (summary p)))
                     else md_text)
      in if truthy (pdf_url p)
         then md_text @ page_emoji @ '' [Paper Link]('' @ the (pdf_url p) @ '')\<newline>\<newline>''
         else md_text)"

definition obs_generate_markdown :: "paper list \<Rightarrow> string \<Rightarrow> string" where
  "obs_generate_markdown papers ttl =
     (let papers = sorted_papers papers;
          md_content = ''---\<newline>'';
          md_content = md_content @ ''title: '' @ ttl @ ''\<newline>'';
          md_content = md_content @ ''---\<newline>\<newline>'';
          md_content = md_content
             @ ''*Generated by [PubSummarizer](https://github.com/Insights-Ac/PubSummarizer)*\<newline>\<newline>''
      in foldl (\<lambda>md_content p. md_content @ obs_format_paper p) md_content papers)"

subsection \<open>WebExporter\<close>

text \<open>
  The values a \<open>paper_dict\<close> holds, and the dictionary itself as the list of its
  items in insertion order, which is the order \<^verbatim>\<open>json.dumps\<close> writes them in.
  Assigning to a key that is present keeps its place.
\<close>

datatype pyval = PyNone | PyStr string | PyList "string list"

type_synonym pydict = "(string \<times> pyval) list"

fun dict_set :: "pydict \<Rightarrow> string \<Rightarrow> pyval \<Rightarrow> pydict" where
  "dict_set [] k v = [(k, v)]"
| "dict_set ((k', v') # kvs) k v =
     (if k' = k then (k, v) # kvs else (k', v') # dict_set kvs k v)"

definition web_section :: "pydict \<Rightarrow> string \<Rightarrow> pydict" where
  "web_section paper_dict section =
     (let section_lower = lower section
      in if startswith section_lower ''topics:]'' then
           (let topics = strip (re_sub_ci ''Topics:]'' section)
            in dict_set paper_dict ''topics'' (PyList (map strip (split topics CHR '',''))))
         else if startswith section_lower ''tl;dr:]'' then
           dict_set paper_dict ''tldr'' (PyStr (strip (re_sub_ci ''TL;DR:]'' section)))
         else if startswith section_lower ''summary:]'' then
           dict_set paper_dict ''summary'' (PyStr (strip (re_sub_ci ''Summary:]'' section)))
         else paper_dict)"

definition web_paper_dict :: "paper \<Rightarrow> pydict" where
  "web_paper_dict p =
     (let paper_dict =
            [(''title'', PyStr (title p)),
             (''pdf_url'', (case pdf_url p of None \<Rightarrow> PyNone | Some u \<Rightarrow> PyStr u)),
             (''topics'', PyList []),
             (''tldr'', PyStr []),
             (''summary'', PyStr [])]
      in if truthy (summary p)
         then foldl web_section paper_dict (sections (the (summary p)))
         else paper_dict)"

definition papers_data :: "paper list \<Rightarrow> pydict list" where
  "papers_data papers = map web_paper_dict (sorted_papers papers)"

text \<open>
  \<^verbatim>\<open>json.dumps\<close> with its defaults on these values: items are separated by a comma
  and a space, keys from values by a colon and a space, and in a string everything
  but the printable ASCII characters is escaped, as are the double quote and the
  backslash.
\<close>

definition hex_digit :: "nat \<Rightarrow> char" where
  "hex_digit n = (if n < 10 then char_of (48 + n) else char_of (87 + n))"

definition json_escape :: "char \<Rightarrow> string" where
  "json_escape c =
     (let n = (of_char c :: nat)
      in if c = CHR 0x5C then [CHR 0x5C, CHR 0x5C]
         else if c = CHR 0x22 then [CHR 0x5C, CHR 0x22]
         else if n = 8 then [CHR 0x5C, CHR ''b'']
         else if n = 12 then [CHR 0x5C, CHR ''f'']
         else if n = 10 then [CHR 0x5C, CHR ''n'']
         else if n = 13 then [CHR 0x5C, CHR ''r'']
         else if n = 9 then [CHR 0x5C, CHR ''t'']
         else if 32 \<le> n \<and> n \<le> 126 then [c]
         else [CHR 0x5C, CHR ''u'', CHR ''0'', CHR ''0'', hex_digit (n div 16), hex_digit (n mod 16)])"

definition json_str :: "string \<Rightarrow> string" where
  "json_str s = [CHR 0x22] @ concat (map json_escape s) @ [CHR 0x22]"

fun json_val :: "pyval \<Rightarrow> string" where
  "json_val PyNone = ''null''"
| "json_val (PyStr s) = json_str s"
| "json_val (PyList xs) = ''['' @ join '', '' (map json_str xs) @ '']''"

definition json_dict :: "pydict \<Rightarrow> string" where
  "json_dict d = ''{'' @ join '', '' (map (\<lambda>(k, v). json_str k @ '': '' @ json_val v) d) @ ''}''"

definition json_dumps :: "pydict list \<Rightarrow> string" where
  "json_dumps ds = ''['' @ join '', '' (map json_dict ds) @ '']''"

text \<open>
  The page template \<open>html_content\<close>, cut at its three replacement fields
  (\<^verbatim>\<open>{title}\<close> twice, then \<^verbatim>\<open>{papers_json}\<close>); the doubled braces of the
  source are the single braces \<^verbatim>\<open>str.format\<close> writes for them. The \<open>date\<close>
  argument of the call has no field in the template.
\<close>

definition html_part1 :: string where
  \<open>html_part1 =
     ''\<newline>'' @
     ''<!DOCTYPE html>\<newline>'' @
     ''<html lang="en">\<newline>'' @
     ''<head>\<newline>'' @
     ''    <meta charset="UTF-8">\<newline>'' @
     ''    <meta name="viewport" content="width=device-width, initial-scale=1">\<newline>'' @
     ''    <title>PubSummarizer - ''\<close>

definition html_part2 :: string where
  \<open>html_part2 =
     ''</title>\<newline>'' @
     ''    <link href="https://cdn.jsdelivr.net/npm/bootstrap@5.3.0/dist/css/bootstrap.min.css" rel="stylesheet">\<newline>'' @
     ''    <script src="https://unpkg.com/masonry-layout@4/dist/masonry.pkgd.min.js"></script>\<newline>'' @
     ''    <style>\<newline>'' @
     ''        .filter-controls {\<newline>'' @
     ''            margin-bottom: 20px;\<newline>'' @
     ''            padding: 15px;\<newline>'' @
     ''            background-color: #f8f9fa;\<newline>'' @
     ''            border-radius: 8px;\<newline>'' @
     ''        }\<newline>'' @
     ''        @media (max-width: 991px) {\<newline>'' @
     ''            .search-box {\<newline>'' @
     ''                margin-bottom: 15px;\<newline>'' @
     ''            }\<newline>'' @
     ''        }\<newline>'' @
     ''    </style>\<newline>'' @
     ''</head>\<newline>'' @
     ''<body>\<newline>'' @
     ''    <div class="container py-4">\<newline>'' @
     ''        <h1 class="mb-4">''\<close>

definition html_part3 :: string where
  \<open>html_part3 =
     ''</h1>\<newline>'' @
     ''        <p class="text-muted"><em>Generated by <a href="https://github.com/Logan-Lin/PubSummarizer">PubSummarizer</a></em></p>\<newline>'' @
     ''        \<newline>'' @
     ''        <div class="filter-controls">\<newline>'' @
     ''            <div class="d-flex flex-md-row flex-column gap-3">\<newline>'' @
     ''                <div class="flex-grow-1">\<newline>'' @
     ''                    <input type="text" class="form-control search-box" id="searchInput" \<newline>'' @
     ''                           placeholder="Search in titles, topics, TL;DR, and summaries...">\<newline>'' @
     ''                </div>\<newline>'' @
     ''                <div class="btn-group" role="group" aria-label="Section toggles">\<newline>'' @
     ''                    <input type="checkbox" class="btn-check" id="showTopics" checked autocomplete="off">\<newline>'' @
     ''                    <label class="btn btn-outline-primary" for="showTopics">Topics</label>\<newline>'' @
     ''\<newline>'' @
     ''                    <input type="checkbox" class="btn-check" id="showTldr" checked autocomplete="off">\<newline>'' @
     ''                    <label class="btn btn-outline-primary" for="showTldr">TL;DR</label>\<newline>'' @
     ''\<newline>'' @
     ''                    <input type="checkbox" class="btn-check" id="showSummary" checked autocomplete="off">\<newline>'' @
     ''                    <label class="btn btn-outline-primary" for="showSummary">Summary</label>\<newline>'' @
     ''                </div>\<newline>'' @
     ''            </div>\<newline>'' @
     ''        </div>\<newline>'' @
     ''\<newline>'' @
     ''        <div id="papers-container" class="row" data-masonry='{"percentPosition": true }'></div>\<newline>'' @
     ''    </div>\<newline>'' @
     ''\<newline>'' @
     ''    <script>\<newline>'' @
     ''        // Store papers data\<newline>'' @
     ''        const papersData = ''\<close>

definition html_part4 :: string where
  \<open>html_part4 =
     '';\<newline>'' @
     ''        \<newline>'' @
     ''        // Function to filter papers based on search input\<newline>'' @
     ''        function filterPapers(searchText) {\<newline>'' @
     ''            if (!searchText) return papersData;\<newline>'' @
     ''            \<newline>'' @
     ''            searchText = searchText.toLowerCase();\<newline>'' @
     ''            return papersData.filter(paper => {\<newline>'' @
     ''                const titleMatch = paper.title.toLowerCase().includes(searchText);\<newline>'' @
     ''                const topicsMatch = paper.topics.some(topic => \<newline>'' @
     ''                    topic.toLowerCase().includes(searchText)\<newline>'' @
     ''                );\<newline>'' @
     ''                const tldrMatch = paper.tldr.toLowerCase().includes(searchText);\<newline>'' @
     ''                const summaryMatch = paper.summary.toLowerCase().includes(searchText);\<newline>'' @
     ''                \<newline>'' @
     ''                return titleMatch || topicsMatch || tldrMatch || summaryMatch;\<newline>'' @
     ''            });\<newline>'' @
     ''        }\<newline>'' @
     ''        \<newline>'' @
     ''        // Function to create paper card HTML\<newline>'' @
     ''        function createPaperCard(paper) {\<newline>'' @
     ''            const showTopics = document.getElementById('showTopics').checked;\<newline>'' @
     ''            const showTldr = document.getElementById('showTldr').checked;\<newline>'' @
     ''            const showSummary = document.getElementById('showSummary').checked;\<newline>'' @
     ''\<newline>'' @
     ''            const topicsHtml = (showTopics && paper.topics.length > 0)\<newline>'' @
     ''                ? `<div class="mb-3">\<newline>'' @
     ''                     <div class="d-flex gap-2 flex-wrap">\<newline>'' @
     ''                       ${paper.topics.map(topic => `<span class="badge text-bg-info">${topic}</span>`).join('' @ [CHR 0x27, CHR 0x27] @ '')}\<newline>'' @
     ''                     </div>\<newline>'' @
     ''                   </div>`\<newline>'' @
     ''                : '' @ [CHR 0x27, CHR 0x27] @ '';\<newline>'' @
     ''                \<newline>'' @
     ''            const tldrHtml = (showTldr && paper.tldr)\<newline>'' @
     ''                ? `<div class="mb-3">\<newline>'' @
     ''                     <h3 class="h5">TL;DR</h3>\<newline>'' @
     ''                     <p class="card-text">${paper.tldr}</p>\<newline>'' @
     ''                   </div>`\<newline>'' @
     ''                : '' @ [CHR 0x27, CHR 0x27] @ '';\<newline>'' @
     ''                \<newline>'' @
     ''            const summaryHtml = (showSummary && paper.summary)\<newline>'' @
     ''                ? `<div class="mb-3">\<newline>'' @
     ''                     <h3 class="h5">Summary</h3>\<newline>'' @
     ''                     <p class="card-text">${paper.summary}</p>\<newline>'' @
     ''                   </div>`\<newline>'' @
     ''                : '' @ [CHR 0x27, CHR 0x27] @ '';\<newline>'' @
     ''                \<newline>'' @
     ''            const urlHtml = paper.pdf_url\<newline>'' @
     ''                ? `<p class="card-text"><a href="${paper.pdf_url}" class="btn btn-outline-primary btn-sm">Download Paper</a></p>`\<newline>'' @
     ''                : '' @ [CHR 0x27, CHR 0x27] @ '';\<newline>'' @
     ''                \<newline>'' @
     ''            return `\<newline>'' @
     ''                <div class="col-sm-12 col-lg-6 col-xl-4 mb-4">\<newline>'' @
     ''                    <div class="card shadow-sm">\<newline>'' @
     ''                        <div class="card-body">\<newline>'' @
     ''                            <h3 class="card-title h4">${paper.title}</h3>\<newline>'' @
     ''                            ${topicsHtml}\<newline>'' @
     ''                            ${tldrHtml}\<newline>'' @
     ''                            ${summaryHtml}\<newline>'' @
     ''                            ${urlHtml}\<newline>'' @
     ''                        </div>\<newline>'' @
     ''                    </div>\<newline>'' @
     ''                </div>\<newline>'' @
     ''            `;\<newline>'' @
     ''        }\<newline>'' @
     ''\<newline>'' @
     ''        // Render papers\<newline>'' @
     ''        function renderPapers() {\<newline>'' @
     ''            const searchText = document.getElementById('searchInput').value;\<newline>'' @
     ''            const filteredPapers = filterPapers(searchText);\<newline>'' @
     ''            \<newline>'' @
     ''            const container = document.getElementById('papers-container');\<newline>'' @
     ''            container.innerHTML = filteredPapers.map(createPaperCard).join('' @ [CHR 0x27, CHR 0x27] @ '');\<newline>'' @
     ''            \<newline>'' @
     ''            // Initialize Masonry layout\<newline>'' @
     ''            new Masonry(container, {\<newline>'' @
     ''                percentPosition: true\<newline>'' @
     ''            });\<newline>'' @
     ''        }\<newline>'' @
     ''\<newline>'' @
     ''        // Add event listeners\<newline>'' @
     ''        document.getElementById('searchInput').addEventListener('input', renderPapers);\<newline>'' @
     ''        document.getElementById('showTopics').addEventListener('change', renderPapers);\<newline>'' @
     ''        document.getElementById('showTldr').addEventListener('change', renderPapers);\<newline>'' @
     ''        document.getElementById('showSummary').addEventListener('change', renderPapers);\<newline>'' @
     ''\<newline>'' @
     ''        // Render papers when page loads\<newline>'' @
     ''        document.addEventListener('DOMContentLoaded', renderPapers);\<newline>'' @
     ''    </script>\<newline>'' @
     ''    <script src="https://cdn.jsdelivr.net/npm/bootstrap@5.3.0/dist/js/bootstrap.bundle.min.js"></script>\<newline>'' @
     ''</body>\<newline>'' @
     ''</html>\<newline>''\<close>

definition html_content :: "string \<Rightarrow> string \<Rightarrow> string" where
  "html_content ttl papers_json =
     html_part1 @ ttl @ html_part2 @ ttl @ html_part3 @ papers_json @ html_part4"

definition generate_html :: "paper list \<Rightarrow> string \<Rightarrow> string" where
  "generate_html papers ttl = html_content ttl (json_dumps (papers_data papers))"

subsection \<open>Exporting to a file\<close>

text \<open>
  The store (\<^verbatim>\<open>sql.Database\<close>), the clock, the file system and the standard output
  are outside \<^verbatim>\<open>exporter.py\<close>. They are the fields of a record of operations on
  a state \<open>'w\<close> of the outside world: an operation returns its value, or the
  exception it raises, together with the state it leaves. \<open>mkdir_parent path\<close> is
  \<^verbatim>\<open>Path(path).parent.mkdir(parents=True, exist_ok=True)\<close>, and \<open>write_file path text\<close>
  is the \<^verbatim>\<open>with open(path, 'w', encoding='utf-8')\<close> block. The filters are handed
  to the store as they come.
\<close>

datatype error = ValueError string | OSError string

record ('w, 'db, 'f) sys =
  Database :: "string \<Rightarrow> 'w \<Rightarrow> (error + 'db) \<times> 'w"
  get_papers :: "'db \<Rightarrow> 'f \<Rightarrow> 'w \<Rightarrow> (error + paper list) \<times> 'w"
  clock :: "'w \<Rightarrow> string"
  mkdir_parent :: "string \<Rightarrow> 'w \<Rightarrow> (error + unit) \<times> 'w"
  write_file :: "string \<Rightarrow> string \<Rightarrow> 'w \<Rightarrow> (error + unit) \<times> 'w"
  print :: "string \<Rightarrow> 'w \<Rightarrow> 'w"

definition no_papers_found :: error where
  "no_papers_found = ValueError ''No papers found in the database with the given filters''"

text \<open>The last two steps of every \<open>export_to_file\<close>.\<close>

definition write_output :: "('w, 'db, 'f) sys \<Rightarrow> string \<Rightarrow> string \<Rightarrow> 'w \<Rightarrow> (error + unit) \<times> 'w" where
  "write_output s output_path content w =
     (case mkdir_parent s output_path w of
        (Inl e, w') \<Rightarrow> (Inl e, w')
      | (Inr u, w') \<Rightarrow> write_file s output_path content w')"

definition md_export_to_file ::
  "('w, 'db, 'f) sys \<Rightarrow> 'db \<Rightarrow> string \<Rightarrow> 'f \<Rightarrow> string \<Rightarrow> 'w \<Rightarrow> (error + unit) \<times> 'w" where
  "md_export_to_file s db output_path filters ttl w =
     (case get_papers s db filters w of
        (Inl e, w') \<Rightarrow> (Inl e, w')
      | (Inr papers, w') \<Rightarrow>
          if papers = [] then (Inl no_papers_found, w')
          else (let md_content = md_generate_markdown (clock s w') papers ttl
                in write_output s output_path md_content w'))"

definition obs_export_to_file ::
  "('w, 'db, 'f) sys \<Rightarrow> 'db \<Rightarrow> string \<Rightarrow> 'f \<Rightarrow> string \<Rightarrow> 'w \<Rightarrow> (error + unit) \<times> 'w" where
  "obs_export_to_file s db output_path filters ttl w =
     (case get_papers s db filters w of
        (Inl e, w') \<Rightarrow> (Inl e, w')
      | (Inr papers, w') \<Rightarrow>
          if papers = [] then (Inl no_papers_found, w')
          else (let md_content = obs_generate_markdown papers ttl
                in write_output s output_path md_content w'))"

definition web_export_to_file ::
  "('w, 'db, 'f) sys \<Rightarrow> 'db \<Rightarrow> string \<Rightarrow> 'f \<Rightarrow> string \<Rightarrow> 'w \<Rightarrow> (error + unit) \<times> 'w" where
  "web_export_to_file s db output_path filters ttl w =
     (case get_papers s db filters w of
        (Inl e, w') \<Rightarrow> (Inl e, w')
      | (Inr papers, w') \<Rightarrow>
          if papers = [] then (Inl no_papers_found, w')
          else (let html = generate_html papers ttl
                in write_output s output_path html w'))"

text \<open>The exporter object \<open>export_papers\<close> builds, and the method call on it.\<close>

datatype 'db exporter = MarkdownExporter 'db | ObsidianExporter 'db | WebExporter 'db

fun export_to_file ::
  "('w, 'db, 'f) sys \<Rightarrow> 'db exporter \<Rightarrow> string \<Rightarrow> 'f \<Rightarrow> string \<Rightarrow> 'w \<Rightarrow> (error + unit) \<times> 'w" where
  "export_to_file s (MarkdownExporter db) output_path filters ttl w =
     md_export_to_file s db output_path filters ttl w"
| "export_to_file s (ObsidianExporter db) output_path filters ttl w =
     obs_export_to_file s db output_path filters ttl w"
| "export_to_file s (WebExporter db) output_path filters ttl w =
     web_export_to_file s db output_path filters ttl w"

definition unsupported_format :: "string \<Rightarrow> error" where
  "unsupported_format fmt =
     ValueError (''Unsupported format: '' @ fmt @ ''. Use 'markdown', 'obsidian', or 'html'' @ [CHR 0x27])"

text \<open>The chain of tests on \<^verbatim>\<open>format.lower()\<close>.\<close>

definition select_exporter :: "'db \<Rightarrow> string \<Rightarrow> error + 'db exporter" where
  "select_exporter db fmt =
     (if lower fmt = ''markdown'' then Inr (MarkdownExporter db)
      else if lower fmt = ''obsidian'' then Inr (ObsidianExporter db)
      else if lower fmt = ''html'' then Inr (WebExporter db)
      else Inl (unsupported_format fmt))"

definition export_papers ::
  "('w, 'db, 'f) sys \<Rightarrow> string \<Rightarrow> string \<Rightarrow> string \<Rightarrow> 'f \<Rightarrow> string \<Rightarrow> 'w \<Rightarrow> (error + unit) \<times> 'w" where
  "export_papers s db_url output_path fmt filters ttl w =
     (case Database s db_url w of
        (Inl e, w0) \<Rightarrow> (Inl e, w0)
      | (Inr db, w0) \<Rightarrow>
          (case select_exporter db fmt of
             Inl e \<Rightarrow> (Inl e, w0)
           | Inr exporter \<Rightarrow>
               (case export_to_file s exporter output_path filters ttl w0 of
                  (Inl e, w1) \<Rightarrow> (Inl e, w1)
                | (Inr u, w1) \<Rightarrow> (Inr (), print s (''Exported papers to '' @ output_path) w1))))"

subsection \<open>Notions the statements below use\<close>

text \<open>
  The slug of a topic in the words of the specification: spaces become hyphens,
  apostrophes go, letters are lower-cased.
\<close>

definition slug :: "string \<Rightarrow> string" where
  "slug topic =
     lower (filter (\<lambda>c. c \<noteq> CHR 0x27) (map (\<lambda>c. if c = CHR '' '' then CHR ''-'' else c) topic))"

text \<open>Whether \<open>pat\<close> occurs somewhere in \<open>s\<close>, letter case aside.\<close>

fun occurs_ci :: "string \<Rightarrow> string \<Rightarrow> bool" where
  "occurs_ci pat [] = False"
| "occurs_ci pat (c # cs) = (match_ci pat (c # cs) \<or> occurs_ci pat cs)"

text \<open>
  Whether no occurrence of \<open>pat\<close>, letter case aside, starts within \<open>xs\<close> in the
  text \<open>xs @ rest\<close>.
\<close>

fun free_before :: "string \<Rightarrow> string \<Rightarrow> string \<Rightarrow> bool" where
  "free_before pat [] rest = True"
| "free_before pat (c # cs) rest = (\<not> match_ci pat (c # cs @ rest) \<and> free_before pat cs rest)"

text \<open>
  An outside world for the examples: its state is the log of the calls made on it,
  the store holds the given papers, and no call fails.
\<close>

definition log_sys :: "paper list \<Rightarrow> (string list, unit, unit) sys" where
  "log_sys papers =
     \<lparr>Database = (\<lambda>db_url w. (Inr (), w @ [''connect '' @ db_url])),
      get_papers = (\<lambda>db filters w. (Inr papers, w @ [''query''])),
      clock = (\<lambda>w. ''2024-01-01 00:00:00''),
      mkdir_parent = (\<lambda>path w. (Inr (), w @ [''mkdir parent of '' @ path])),
      write_file = (\<lambda>path content w. (Inr (), w @ [''write '' @ path])),
      print = (\<lambda>line w. w @ [''print '' @ line])\<rparr>"

section \<open>Facts about the string operations\<close>

lemma split_not_Nil: "split s c \<noteq> []"
  by (induction s) (auto split: list.splits)

lemma split_no_sep: "c \<notin> set s \<Longrightarrow> split s c = [s]"
  by (induction s) auto

lemma split_append_sep: "c \<notin> set xs \<Longrightarrow> split (xs @ c # ys) c = xs # split ys c"
  by (induction xs) (auto split: list.splits)

lemma replace_from_unchanged: "old \<noteq> [] \<Longrightarrow> hd old \<notin> set s \<Longrightarrow> replace_from old new s = s"
proof (induction s)
  case Nil
  then show ?case by simp
next
  case (Cons c cs)
  then have "\<not> startswith (c # cs) old"
    by (cases old) (auto simp: startswith_def)
  with Cons show ?case by simp
qed

lemma set_replace_from_empty: "set (replace_from old [] s) \<subseteq> set s"
proof (induction old "[] :: string" s rule: replace_from.induct)
  case (1 old)
  then show ?case by simp
next
  case (2 old c cs)
  show ?case
  proof (cases "old \<noteq> [] \<and> startswith (c # cs) old")
    case True
    with 2 have "set (replace_from old [] (drop (length old) (c # cs))) \<subseteq> set (drop (length old) (c # cs))"
      by simp
    also have "\<dots> \<subseteq> set (c # cs)" by (rule set_drop_subset)
    finally show ?thesis using True by simp
  next
    case False
    with 2 show ?thesis by auto
  qed
qed

lemma set_clean_summary: "set (clean_summary s) \<subseteq> set s"
  unfolding clean_summary_def replace_def
  using set_replace_from_empty [of "''**''" s] set_replace_from_empty [of "''__''" "replace_from ''**'' [] s"]
  by auto

lemma replace_from_char_char: "replace_from [a] [b] s = map (\<lambda>c. if c = a then b else c) s"
  by (induction s) (auto simp: startswith_def)

lemma replace_from_char_del: "replace_from [a] [] s = filter (\<lambda>c. c \<noteq> a) s"
  by (induction s) (auto simp: startswith_def)

lemma foldl_append_fun: "foldl (\<lambda>acc p. acc @ f p) acc ps = acc @ concat (map f ps)"
  by (induction ps arbitrary: acc) auto

lemma md_section_acc: "md_section acc s = acc @ md_section [] s"
  by (simp add: md_section_def Let_def)

lemma obs_section_acc: "obs_section acc s = acc @ obs_section [] s"
  by (simp add: obs_section_def Let_def)

lemma foldl_md_section: "foldl md_section acc xs = acc @ concat (map (md_section []) xs)"
proof (induction xs arbitrary: acc)
  case Nil
  then show ?case by simp
next
  case (Cons x xs)
  show ?case using Cons [of "md_section acc x"] md_section_acc [of acc x] by simp
qed

lemma foldl_obs_section: "foldl obs_section acc xs = acc @ concat (map (obs_section []) xs)"
proof (induction xs arbitrary: acc)
  case Nil
  then show ?case by simp
next
  case (Cons x xs)
  show ?case using Cons [of "obs_section acc x"] obs_section_acc [of acc x] by simp
qed

section \<open>Exporting when the store has no matching paper\<close>

text \<open>
  Claim C7. When the query of the store returns the empty list, each of the three
  exporters raises the error "No papers found in the database with the given
  filters", and the outside world is left as the query left it: the parent directory
  is not created and nothing is written to the output path, whatever these two
  operations would do.
\<close>

theorem export_no_papers:
  assumes "get_papers s db filters w = (Inr [], w')"
  shows "export_to_file s (MarkdownExporter db) output_path filters ttl w = (Inl no_papers_found, w')
       \<and> export_to_file s (ObsidianExporter db) output_path filters ttl w = (Inl no_papers_found, w')
       \<and> export_to_file s (WebExporter db) output_path filters ttl w = (Inl no_papers_found, w')
       \<and> no_papers_found = ValueError ''No papers found in the database with the given filters''"
  using assms
  by (simp add: md_export_to_file_def obs_export_to_file_def web_export_to_file_def no_papers_found_def)

theorem export_no_papers_witness:
  "get_papers (log_sys []) () () [] = (Inr [], [''query''])
   \<and> export_to_file (log_sys []) (MarkdownExporter ()) ''out/papers.md'' () ''T'' [] = (Inl no_papers_found, [''query''])
   \<and> export_to_file (log_sys []) (ObsidianExporter ()) ''out/papers.md'' () ''T'' [] = (Inl no_papers_found, [''query''])
   \<and> export_to_file (log_sys []) (WebExporter ()) ''out/papers.html'' () ''T'' [] = (Inl no_papers_found, [''query''])"
proof -
  have h: "get_papers (log_sys []) () () [] = (Inr [], [''query''])"
    by (simp add: log_sys_def)
  from export_no_papers [OF h, of "''out/papers.md''" "''T''"] export_no_papers [OF h, of "''out/papers.html''" "''T''"] h
  show ?thesis by simp
qed

section \<open>The order of the papers\<close>

lemma map_sort_key_mset:
  fixes f :: "'a \<Rightarrow> 'b::linorder"
  assumes "mset ps = mset qs"
  shows "map f (sort_key f ps) = map f (sort_key f qs)"
proof -
  have "mset (map f (sort_key f qs)) = mset (map f ps)"
    using assms by simp
  then have 1: "sort (map f ps) = map f (sort_key f qs)"
    by (rule properties_for_sort) (simp add: sorted_sort_key)
  have "mset (map f (sort_key f ps)) = mset (map f ps)"
    by simp
  then have 2: "sort (map f ps) = map f (sort_key f ps)"
    by (rule properties_for_sort) (simp add: sorted_sort_key)
  from 1 2 show ?thesis by simp
qed

lemma startswith_appendI: "s = p @ r \<Longrightarrow> startswith s p"
  by (simp add: startswith_def)

lemma md_format_paper_heading:
  "startswith (md_format_paper p) (''## '' @ title p @ ''\<newline>\<newline>'')"
  by (rule startswith_appendI
      [where r = "(if truthy (summary p)
                   then concat (map (md_section []) (sections (the (summary p)))) else [])
                  @ (if truthy (pdf_url p)
                     then ''**Paper URL**: ['' @ the (pdf_url p) @ '']('' @ the (pdf_url p) @ '')\<newline>\<newline>''
                     else [])
                  @ ''---\<newline>\<newline>''"])
    (simp add: md_format_paper_def Let_def foldl_md_section)

lemma obs_format_paper_heading:
  "startswith (obs_format_paper p) (''---\<newline>\<newline>### '' @ title p @ ''\<newline>\<newline>'')"
  by (rule startswith_appendI
      [where r = "(if truthy (summary p)
                   then concat (map (obs_section []) (sections (the (summary p)))) else [])
                  @ (if truthy (pdf_url p)
                     then page_emoji @ '' [Paper Link]('' @ the (pdf_url p) @ '')\<newline>\<newline>''
                     else [])"])
    (simp add: obs_format_paper_def Let_def foldl_obs_section)

lemma dict_set_Cons: "\<exists>e es. dict_set d k v = e # es"
  by (cases d) auto

lemma web_section_head:
  "\<exists>e es. web_section ((''title'', v0) # e0 # es0) s = (''title'', v0) # e # es"
proof -
  have "\<exists>e es. dict_set ((''title'', v0) # e0 # es0) k v = (''title'', v0) # e # es"
    if "k \<noteq> ''title''" for k v
    using that dict_set_Cons [of "e0 # es0" k v] by auto
  then show ?thesis
    by (simp add: web_section_def Let_def)
qed

lemma foldl_web_section_head:
  "\<exists>e es. foldl web_section ((''title'', v0) # e0 # es0) xs = (''title'', v0) # e # es"
proof (induction xs arbitrary: e0 es0)
  case Nil
  then show ?case by simp
next
  case (Cons x xs)
  obtain e es where "web_section ((''title'', v0) # e0 # es0) x = (''title'', v0) # e # es"
    using web_section_head by blast
  with Cons [of e es] show ?case by simp
qed

lemma web_paper_dict_head: "\<exists>e es. web_paper_dict p = (''title'', PyStr (title p)) # e # es"
  using foldl_web_section_head
  by (simp add: web_paper_dict_def Let_def)

lemma json_dict_heading:
  "startswith (json_dict (web_paper_dict p))
     (''{'' @ json_str ''title'' @ '': '' @ json_str (title p) @ '', '')"
proof -
  obtain e es where d: "web_paper_dict p = (''title'', PyStr (title p)) # e # es"
    using web_paper_dict_head by blast
  show ?thesis
    by (rule startswith_appendI
        [where r = "join '', '' (map (\<lambda>(k, v). json_str k @ '': '' @ json_val v) (e # es)) @ ''}''"])
      (simp add: d json_dict_def)
qed

text \<open>
  Claim C6. Each of the three renderers writes its fixed opening and then one section
  per paper (for the page: one object of the embedded array per paper), for the
  papers taken in the order \<open>sorted_papers\<close> gives. The section of a paper begins
  with the heading that carries its title, and its object in the page with its title
  field. The list \<open>sorted_papers\<close> gives holds the papers of the input, each as
  often as the input does, in ascending order of the lower-cased title; and
  reordering the input does not change the sequence of lower-cased titles in the
  output.
\<close>

theorem sections_in_title_order:
  "md_generate_markdown now papers ttl =
     ''# '' @ ttl @ ''\<newline>\<newline>*Generated on '' @ now
       @ '' by [PubSummarizer](https://github.com/Logan-Lin/PubSummarizer)*\<newline>\<newline>''
       @ concat (map md_format_paper (sorted_papers papers))
   \<and> startswith (md_format_paper p) (''## '' @ title p @ ''\<newline>\<newline>'')
   \<and> obs_generate_markdown papers ttl =
     ''---\<newline>title: '' @ ttl @ ''\<newline>---\<newline>\<newline>''
       @ ''*Generated by [PubSummarizer](https://github.com/Insights-Ac/PubSummarizer)*\<newline>\<newline>''
       @ concat (map obs_format_paper (sorted_papers papers))
   \<and> startswith (obs_format_paper p) (''---\<newline>\<newline>### '' @ title p @ ''\<newline>\<newline>'')
   \<and> generate_html papers ttl =
     html_part1 @ ttl @ html_part2 @ ttl @ html_part3
       @ ''['' @ join '', '' (map (\<lambda>p. json_dict (web_paper_dict p)) (sorted_papers papers)) @ '']''
       @ html_part4
   \<and> startswith (json_dict (web_paper_dict p))
        (''{'' @ json_str ''title'' @ '': '' @ json_str (title p) @ '', '')
   \<and> sorted (map (\<lambda>p. lower (title p)) (sorted_papers papers))
   \<and> mset (sorted_papers papers) = mset papers
   \<and> (mset papers' = mset papers \<longrightarrow>
        map (\<lambda>p. lower (title p)) (sorted_papers papers') = map (\<lambda>p. lower (title p)) (sorted_papers papers))"
proof -
  have md: "md_generate_markdown now papers ttl =
     ''# '' @ ttl @ ''\<newline>\<newline>*Generated on '' @ now
       @ '' by [PubSummarizer](https://github.com/Logan-Lin/PubSummarizer)*\<newline>\<newline>''
       @ concat (map md_format_paper (sorted_papers papers))"
    by (simp add: md_generate_markdown_def Let_def foldl_append_fun)
  have obs: "obs_generate_markdown papers ttl =
     ''---\<newline>title: '' @ ttl @ ''\<newline>---\<newline>\<newline>''
       @ ''*Generated by [PubSummarizer](https://github.com/Insights-Ac/PubSummarizer)*\<newline>\<newline>''
       @ concat (map obs_format_paper (sorted_papers papers))"
    by (simp add: obs_generate_markdown_def Let_def foldl_append_fun)
  have web: "generate_html papers ttl =
     html_part1 @ ttl @ html_part2 @ ttl @ html_part3
       @ ''['' @ join '', '' (map (\<lambda>p. json_dict (web_paper_dict p)) (sorted_papers papers)) @ '']''
       @ html_part4"
    by (simp add: generate_html_def html_content_def json_dumps_def papers_data_def comp_def)
  have srt: "sorted (map (\<lambda>p. lower (title p)) (sorted_papers papers))"
    by (simp add: sorted_papers_def sorted_sort_key)
  have perm: "mset (sorted_papers papers) = mset papers"
    by (simp add: sorted_papers_def)
  have indep: "mset papers' = mset papers \<longrightarrow>
        map (\<lambda>p. lower (title p)) (sorted_papers papers') = map (\<lambda>p. lower (title p)) (sorted_papers papers)"
    unfolding sorted_papers_def by (blast intro: map_sort_key_mset)
  from md md_format_paper_heading [of p] obs obs_format_paper_heading [of p] web
    json_dict_heading [of p] srt perm indep
  show ?thesis by blast
qed

theorem sections_in_title_order_witness:
  "mset [\<lparr>title = ''Alpha Paper'', summary = None, pdf_url = None\<rparr>,
         \<lparr>title = ''beta paper'', summary = Some ''[TL;DR:] short'', pdf_url = None\<rparr>]
     = mset [\<lparr>title = ''beta paper'', summary = Some ''[TL;DR:] short'', pdf_url = None\<rparr>,
             \<lparr>title = ''Alpha Paper'', summary = None, pdf_url = None\<rparr>]
   \<and> map (\<lambda>p. lower (title p))
         (sorted_papers [\<lparr>title = ''Alpha Paper'', summary = None, pdf_url = None\<rparr>,
                         \<lparr>title = ''beta paper'', summary = Some ''[TL;DR:] short'', pdf_url = None\<rparr>])
     = map (\<lambda>p. lower (title p))
         (sorted_papers [\<lparr>title = ''beta paper'', summary = Some ''[TL;DR:] short'', pdf_url = None\<rparr>,
                         \<lparr>title = ''Alpha Paper'', summary = None, pdf_url = None\<rparr>])
   \<and> map title
         (sorted_papers [\<lparr>title = ''beta paper'', summary = Some ''[TL;DR:] short'', pdf_url = None\<rparr>,
                         \<lparr>title = ''Alpha Paper'', summary = None, pdf_url = None\<rparr>])
     = [''Alpha Paper'', ''beta paper'']
   \<and> obs_generate_markdown
         [\<lparr>title = ''beta paper'', summary = Some ''[TL;DR:] short'', pdf_url = None\<rparr>,
          \<lparr>title = ''Alpha Paper'', summary = None, pdf_url = None\<rparr>] ''T''
     = ''---\<newline>title: T\<newline>---\<newline>\<newline>''
       @ ''*Generated by [PubSummarizer](https://github.com/Insights-Ac/PubSummarizer)*\<newline>\<newline>''
       @ ''---\<newline>\<newline>### Alpha Paper\<newline>\<newline>''
       @ ''---\<newline>\<newline>### beta paper\<newline>\<newline>#### TL;DR\<newline>\<newline>short\<newline>\<newline>''
   \<and> map title
         (sorted_papers [\<lparr>title = [CHR 0xC9, CHR ''a''], summary = None, pdf_url = None\<rparr>,
                         \<lparr>title = [CHR 0xE8, CHR ''b''], summary = None, pdf_url = None\<rparr>])
     = [[CHR 0xE8, CHR ''b''], [CHR 0xC9, CHR ''a'']]"
proof -
  let ?a = "\<lparr>title = ''Alpha Paper'', summary = None, pdf_url = None\<rparr>"
  let ?b = "\<lparr>title = ''beta paper'', summary = Some ''[TL;DR:] short'', pdf_url = None\<rparr>"
  have m: "mset [?a, ?b] = mset [?b, ?a]"
    by (simp add: add_mset_commute)
  have s: "sorted_papers [?b, ?a] = [?a, ?b]"
    by code_simp
  have fa: "obs_format_paper ?a = ''---\<newline>\<newline>### Alpha Paper\<newline>\<newline>''"
    by code_simp
  have fb: "obs_format_paper ?b = ''---\<newline>\<newline>### beta paper\<newline>\<newline>#### TL;DR\<newline>\<newline>short\<newline>\<newline>''"
    by code_simp
  from sections_in_title_order [of "''now''" "[?b, ?a]" "''T''" ?a "[?a, ?b]"] m
  have k: "map (\<lambda>p. lower (title p)) (sorted_papers [?a, ?b]) = map (\<lambda>p. lower (title p)) (sorted_papers [?b, ?a])"
    and o: "obs_generate_markdown [?b, ?a] ''T'' =
       ''---\<newline>title: '' @ ''T'' @ ''\<newline>---\<newline>\<newline>''
       @ ''*Generated by [PubSummarizer](https://github.com/Insights-Ac/PubSummarizer)*\<newline>\<newline>''
       @ concat (map obs_format_paper (sorted_papers [?b, ?a]))"
    by blast+
  have o': "obs_generate_markdown [?b, ?a] ''T''
     = ''---\<newline>title: T\<newline>---\<newline>\<newline>''
       @ ''*Generated by [PubSummarizer](https://github.com/Insights-Ac/PubSummarizer)*\<newline>\<newline>''
       @ ''---\<newline>\<newline>### Alpha Paper\<newline>\<newline>''
       @ ''---\<newline>\<newline>### beta paper\<newline>\<newline>#### TL;DR\<newline>\<newline>short\<newline>\<newline>''"
    unfolding o s by (simp only: list.map concat.simps fa fb) simp
  have t: "map title (sorted_papers [?b, ?a]) = [''Alpha Paper'', ''beta paper'']"
    unfolding s by simp
  have u: "map title
         (sorted_papers [\<lparr>title = [CHR 0xC9, CHR ''a''], summary = None, pdf_url = None\<rparr>,
                         \<lparr>title = [CHR 0xE8, CHR ''b''], summary = None, pdf_url = None\<rparr>])
     = [[CHR 0xE8, CHR ''b''], [CHR 0xC9, CHR ''a'']]"
    by code_simp
  from m k t o' u show ?thesis by blast
qed

section \<open>Selecting the exporter\<close>

text \<open>
  Claim C8, as stated, fails: the selector is lower-cased before it is compared, so
  \<^verbatim>\<open>HTML\<close>, which is none of the three recognized values, selects the page
  exporter; the store is queried and the file is written.
\<close>

theorem uppercase_format_accepted:
  "''HTML'' \<noteq> ''markdown'' \<and> ''HTML'' \<noteq> ''obsidian'' \<and> ''HTML'' \<noteq> ''html''
   \<and> export_papers (log_sys [\<lparr>title = ''A'', summary = None, pdf_url = None\<rparr>])
        ''sqlite:///papers.db'' ''out.html'' ''HTML'' () ''T'' []
       = (Inr (), [''connect sqlite:///papers.db'', ''query'', ''mkdir parent of out.html'',
                   ''write out.html'', ''print Exported papers to out.html''])"
proof -
  have l: "lower ''HTML'' = ''html''"
    by (simp add: lower_def lower_char_def char_of_eq_iff)
  show ?thesis
    by (simp add: export_papers_def select_exporter_def l log_sys_def web_export_to_file_def write_output_def Let_def)
qed

text \<open>
  Claim C8, amended. For every format selector whose lower-cased value is none of
  \<^verbatim>\<open>markdown\<close>, \<^verbatim>\<open>obsidian\<close>, \<^verbatim>\<open>html\<close>, \<open>export_papers\<close> raises the
  unsupported-format error once the store handle is constructed, and leaves the world
  as that construction left it: the store is not queried and no file operation is
  made. A selector that equals one of the three names up to letter case selects the
  corresponding exporter.
\<close>

theorem unsupported_format_raised:
  "(lower fmt \<noteq> ''markdown'' \<and> lower fmt \<noteq> ''obsidian'' \<and> lower fmt \<noteq> ''html''
      \<and> Database s db_url w = (Inr db, w0)
      \<longrightarrow> export_papers s db_url output_path fmt filters ttl w = (Inl (unsupported_format fmt), w0))
   \<and> (lower fmt = ''markdown'' \<longrightarrow> select_exporter db fmt = Inr (MarkdownExporter db))
   \<and> (lower fmt = ''obsidian'' \<longrightarrow> select_exporter db fmt = Inr (ObsidianExporter db))
   \<and> (lower fmt = ''html'' \<longrightarrow> select_exporter db fmt = Inr (WebExporter db))"
  by (simp add: export_papers_def select_exporter_def)

theorem unsupported_format_raised_witness:
  "lower ''pdf'' \<noteq> ''markdown'' \<and> lower ''pdf'' \<noteq> ''obsidian'' \<and> lower ''pdf'' \<noteq> ''html''
   \<and> Database (log_sys []) ''sqlite:///papers.db'' [] = (Inr (), [''connect sqlite:///papers.db''])
   \<and> export_papers (log_sys []) ''sqlite:///papers.db'' ''out.pdf'' ''pdf'' () ''T'' []
       = (Inl (unsupported_format ''pdf''), [''connect sqlite:///papers.db''])
   \<and> lower ''Markdown'' = ''markdown'' \<and> select_exporter () ''Markdown'' = Inr (MarkdownExporter ())
   \<and> lower ''OBSIDIAN'' = ''obsidian'' \<and> select_exporter () ''OBSIDIAN'' = Inr (ObsidianExporter ())
   \<and> lower ''html'' = ''html'' \<and> select_exporter () ''html'' = Inr (WebExporter ())"
proof -
  have l: "lower ''pdf'' = ''pdf''" "lower ''Markdown'' = ''markdown''"
    "lower ''OBSIDIAN'' = ''obsidian''" "lower ''html'' = ''html''"
    by (simp_all add: lower_def lower_char_def char_of_eq_iff)
  have d: "Database (log_sys []) ''sqlite:///papers.db'' [] = (Inr (), [''connect sqlite:///papers.db''])"
    by (simp add: log_sys_def)
  from l d
    unsupported_format_raised [of "''pdf''" "log_sys []" "''sqlite:///papers.db''" "[]" "()" "[''connect sqlite:///papers.db'']" "''out.pdf''" "()" "''T''"]
    unsupported_format_raised [of "''Markdown''" "log_sys []" "''x''" "[]" "()" "[]" "''x''" "()" "''T''"]
    unsupported_format_raised [of "''OBSIDIAN''" "log_sys []" "''x''" "[]" "()" "[]" "''x''" "()" "''T''"]
    unsupported_format_raised [of "''html''" "log_sys []" "''x''" "[]" "()" "[]" "''x''" "()" "''T''"]
  show ?thesis by simp
qed

section \<open>Topic tags of the Obsidian exporter\<close>

lemma topic_tag_eq_slug: "topic_tag topic = ''#'' @ slug topic"
  by (simp add: topic_tag_def slug_def replace_def replace_from_char_char replace_from_char_del)

text \<open>
  Claim C9. The tag the Obsidian exporter writes for a topic is \<^verbatim>\<open>#\<close> followed by
  the slug of the topic (spaces replaced by hyphens, apostrophes removed,
  lower-cased); "Graph Neural Networks" gives \<^verbatim>\<open>#graph-neural-networks\<close> and
  "Alice's Method" gives \<^verbatim>\<open>#alices-method\<close>; an accented capital is lower-cased
  too, as the E acute (201, giving 233) of "Ecole Normale" written with it; and a
  Topics section is rendered as the comma-separated list of the tags of its trimmed
  topics.
\<close>

theorem topic_tag_slug:
  "topic_tag topic = ''#'' @ slug topic
   \<and> topic_tag ''Graph Neural Networks'' = ''#graph-neural-networks''
   \<and> topic_tag ''Alice's Method'' = ''#alices-method''
   \<and> topic_tag (CHR 0xC9 # ''cole Normale'') = ''#'' @ CHR 0xE9 # ''cole-normale''
   \<and> (startswith (lower section) ''topics:]'' \<longrightarrow>
        obs_section md_text section =
          md_text @ ''**Topics:** ''
            @ join '', '' (map (\<lambda>t. ''#'' @ slug t)
                 (map strip (split (strip (re_sub_ci ''Topics:]'' section)) CHR '','')))
            @ ''\<newline>\<newline>'')"
proof -
  have 1: "topic_tag ''Graph Neural Networks'' = ''#graph-neural-networks''"
    by code_simp
  have 2: "topic_tag ''Alice's Method'' = ''#alices-method''"
    by code_simp
  have 4: "topic_tag (CHR 0xC9 # ''cole Normale'') = ''#'' @ CHR 0xE9 # ''cole-normale''"
    by code_simp
  have 3: "startswith (lower section) ''topics:]'' \<longrightarrow>
        obs_section md_text section =
          md_text @ ''**Topics:** ''
            @ join '', '' (map (\<lambda>t. ''#'' @ slug t)
                 (map strip (split (strip (re_sub_ci ''Topics:]'' section)) CHR '','')))
            @ ''\<newline>\<newline>''"
    by (simp add: obs_section_def Let_def topic_tag_eq_slug comp_def)
  from topic_tag_eq_slug 1 2 4 3 show ?thesis by blast
qed

theorem topic_tag_slug_witness:
  "startswith (lower ''Topics:] Graph Neural Networks, Alice's Method'') ''topics:]''
   \<and> obs_section ''### T\<newline>\<newline>'' ''Topics:] Graph Neural Networks, Alice's Method''
       = ''### T\<newline>\<newline>**Topics:** #graph-neural-networks, #alices-method\<newline>\<newline>''"
proof -
  have s: "startswith (lower ''Topics:] Graph Neural Networks, Alice's Method'') ''topics:]''"
    by code_simp
  have t: "map strip (split (strip (re_sub_ci ''Topics:]'' ''Topics:] Graph Neural Networks, Alice's Method'')) CHR '','')
           = [''Graph Neural Networks'', ''Alice's Method'']"
    by code_simp
  have g: "slug ''Graph Neural Networks'' = ''graph-neural-networks''"
    by code_simp
  have a: "slug ''Alice's Method'' = ''alices-method''"
    by code_simp
  from topic_tag_slug [of "''x''" "''Topics:] Graph Neural Networks, Alice's Method''" "''### T\<newline>\<newline>''"] s
  have "obs_section ''### T\<newline>\<newline>'' ''Topics:] Graph Neural Networks, Alice's Method'' =
          ''### T\<newline>\<newline>'' @ ''**Topics:** ''
            @ join '', '' (map (\<lambda>t. ''#'' @ slug t)
                 (map strip (split (strip (re_sub_ci ''Topics:]'' ''Topics:] Graph Neural Networks, Alice's Method'')) CHR '','')))
            @ ''\<newline>\<newline>''"
    by blast
  then have "obs_section ''### T\<newline>\<newline>'' ''Topics:] Graph Neural Networks, Alice's Method''
       = ''### T\<newline>\<newline>**Topics:** #graph-neural-networks, #alices-method\<newline>\<newline>''"
    unfolding t by (simp add: g a)
  with s show ?thesis by blast
qed

section \<open>Facts about the sections of a summary\<close>

lemma startswith_Nil: "startswith s [] = True"
  by (simp add: startswith_def)

lemma startswith_Cons:
  "startswith s (a # p) = (case s of [] \<Rightarrow> False | c # cs \<Rightarrow> c = a \<and> startswith cs p)"
  by (cases s) (auto simp: startswith_def)

lemma startswith_append: "startswith (p @ s) p"
  by (simp add: startswith_def)

lemma lower_append: "lower (xs @ ys) = lower xs @ lower ys"
  by (simp add: lower_def)

lemma lower_labels:
  "lower ''Topics:]'' = ''topics:]''" "lower ''TL;DR:]'' = ''tl;dr:]''" "lower ''Summary:]'' = ''summary:]''"
  by (simp_all add: lower_def lower_char_def char_of_eq_iff)

lemma match_ci_startswith: "match_ci pat s = startswith (lower s) (lower pat)"
proof
  assume "match_ci pat s"
  then show "startswith (lower s) (lower pat)"
    by (simp add: match_ci_def startswith_def lower_def take_map)
next
  assume a: "startswith (lower s) (lower pat)"
  then have e: "lower (take (length pat) s) = lower pat"
    by (simp add: startswith_def lower_def take_map)
  then have "length (take (length pat) s) = length pat"
    by (metis length_map lower_def)
  then have "length pat \<le> length s" by simp
  with e show "match_ci pat s" by (simp add: match_ci_def)
qed

lemma match_labels:
  "match_ci ''Topics:]'' s = startswith (lower s) ''topics:]''"
  "match_ci ''TL;DR:]'' s = startswith (lower s) ''tl;dr:]''"
  "match_ci ''Summary:]'' s = startswith (lower s) ''summary:]''"
  by (simp_all only: match_ci_startswith lower_labels)

lemma labels_exclusive:
  "startswith x ''tl;dr:]'' \<Longrightarrow> \<not> startswith x ''topics:]''"
  "startswith x ''summary:]'' \<Longrightarrow> \<not> startswith x ''topics:]''"
  "startswith x ''summary:]'' \<Longrightarrow> \<not> startswith x ''tl;dr:]''"
  by (auto simp: startswith_Cons split: list.splits)

lemma re_sub_ci_match:
  "pat \<noteq> [] \<Longrightarrow> match_ci pat s \<Longrightarrow> re_sub_ci pat s = re_sub_ci pat (drop (length pat) s)"
  by (cases s) (auto simp: match_ci_def)

lemma re_sub_ci_no_occurrence: "\<not> occurs_ci pat s \<Longrightarrow> re_sub_ci pat s = s"
  by (induction s) auto

lemma map_of_dict_set: "map_of (dict_set d k v) = (map_of d)(k \<mapsto> v)"
  by (induction d k v rule: dict_set.induct) auto

lemma keys_dict_set: "k \<in> set (map fst d) \<Longrightarrow> map fst (dict_set d k v) = map fst d"
  by (induction d k v rule: dict_set.induct) auto

lemma keys_web_section:
  "map fst d = [''title'', ''pdf_url'', ''topics'', ''tldr'', ''summary'']
   \<Longrightarrow> map fst (web_section d s) = [''title'', ''pdf_url'', ''topics'', ''tldr'', ''summary'']"
  by (simp add: web_section_def Let_def keys_dict_set)

lemma keys_foldl_web_section:
  "map fst d = [''title'', ''pdf_url'', ''topics'', ''tldr'', ''summary'']
   \<Longrightarrow> map fst (foldl web_section d xs) = [''title'', ''pdf_url'', ''topics'', ''tldr'', ''summary'']"
  by (induction xs arbitrary: d) (simp_all add: keys_web_section)

lemma web_section_topics_hit:
  "startswith (lower s) ''topics:]'' \<Longrightarrow>
   map_of (web_section d s) ''topics''
     = Some (PyList (map strip (split (strip (re_sub_ci ''Topics:]'' s)) CHR '','')))"
  by (simp add: web_section_def Let_def map_of_dict_set)

lemma web_section_tldr_hit:
  "startswith (lower s) ''tl;dr:]'' \<Longrightarrow>
   map_of (web_section d s) ''tldr'' = Some (PyStr (strip (re_sub_ci ''TL;DR:]'' s)))"
  by (simp add: web_section_def Let_def map_of_dict_set labels_exclusive)

lemma web_section_summary_hit:
  "startswith (lower s) ''summary:]'' \<Longrightarrow>
   map_of (web_section d s) ''summary'' = Some (PyStr (strip (re_sub_ci ''Summary:]'' s)))"
  by (simp add: web_section_def Let_def map_of_dict_set labels_exclusive)

lemma web_section_topics_miss:
  "\<not> startswith (lower s) ''topics:]'' \<Longrightarrow> map_of (web_section d s) ''topics'' = map_of d ''topics''"
  by (simp add: web_section_def Let_def map_of_dict_set)

lemma web_section_tldr_miss:
  "\<not> startswith (lower s) ''tl;dr:]'' \<Longrightarrow> map_of (web_section d s) ''tldr'' = map_of d ''tldr''"
  by (simp add: web_section_def Let_def map_of_dict_set)

lemma web_section_summary_miss:
  "\<not> startswith (lower s) ''summary:]'' \<Longrightarrow> map_of (web_section d s) ''summary'' = map_of d ''summary''"
  by (simp add: web_section_def Let_def map_of_dict_set)

lemma foldl_web_section_topics_miss:
  "\<forall>t\<in>set xs. \<not> startswith (lower t) ''topics:]'' \<Longrightarrow>
   map_of (foldl web_section d xs) ''topics'' = map_of d ''topics''"
  by (induction xs arbitrary: d) (simp_all add: web_section_topics_miss)

lemma foldl_web_section_tldr_miss:
  "\<forall>t\<in>set xs. \<not> startswith (lower t) ''tl;dr:]'' \<Longrightarrow>
   map_of (foldl web_section d xs) ''tldr'' = map_of d ''tldr''"
  by (induction xs arbitrary: d) (simp_all add: web_section_tldr_miss)

lemma foldl_web_section_summary_miss:
  "\<forall>t\<in>set xs. \<not> startswith (lower t) ''summary:]'' \<Longrightarrow>
   map_of (foldl web_section d xs) ''summary'' = map_of d ''summary''"
  by (induction xs arbitrary: d) (simp_all add: web_section_summary_miss)

section \<open>Several sections with the same label\<close>

lemma web_paper_dict_foldl:
  "summary p = Some raw \<Longrightarrow> raw \<noteq> [] \<Longrightarrow>
   web_paper_dict p =
     foldl web_section
       [(''title'', PyStr (title p)),
        (''pdf_url'', (case pdf_url p of None \<Rightarrow> PyNone | Some u \<Rightarrow> PyStr u)),
        (''topics'', PyList []), (''tldr'', PyStr []), (''summary'', PyStr [])]
       (sections raw)"
  by (simp add: web_paper_dict_def truthy_def)

lemma keys_web_paper_dict:
  "map fst (web_paper_dict p) = [''title'', ''pdf_url'', ''topics'', ''tldr'', ''summary'']"
  by (simp add: web_paper_dict_def Let_def keys_foldl_web_section)

lemma md_format_paper_sections:
  "summary p = Some raw \<Longrightarrow> raw \<noteq> [] \<Longrightarrow>
   md_format_paper p =
     ''## '' @ title p @ ''\<newline>\<newline>'' @ concat (map (md_section []) (sections raw))
       @ (if truthy (pdf_url p)
          then ''**Paper URL**: ['' @ the (pdf_url p) @ '']('' @ the (pdf_url p) @ '')\<newline>\<newline>''
          else [])
       @ ''---\<newline>\<newline>''"
  by (simp add: md_format_paper_def truthy_def Let_def foldl_md_section)

lemma obs_format_paper_sections:
  "summary p = Some raw \<Longrightarrow> raw \<noteq> [] \<Longrightarrow>
   obs_format_paper p =
     ''---\<newline>\<newline>### '' @ title p @ ''\<newline>\<newline>'' @ concat (map (obs_section []) (sections raw))
       @ (if truthy (pdf_url p)
          then page_emoji @ '' [Paper Link]('' @ the (pdf_url p) @ '')\<newline>\<newline>''
          else [])"
  by (simp add: obs_format_paper_def truthy_def Let_def foldl_obs_section)

text \<open>
  Claim C1, as stated, fails for the Markdown and the Obsidian renderer: they append
  a subsection for every matching section, so the summary
  \<^verbatim>\<open>[TL;DR:] a[TL;DR:] b\<close> is rendered with two TL;DR subsections, the first
  of which holds the text of the earlier match.
\<close>

theorem every_match_rendered_in_markdown:
  "md_format_paper \<lparr>title = ''T'', summary = Some ''[TL;DR:] a[TL;DR:] b'', pdf_url = None\<rparr>
     = ''## T\<newline>\<newline>### TL;DR\<newline>\<newline>a\<newline>\<newline>### TL;DR\<newline>\<newline>b\<newline>\<newline>---\<newline>\<newline>''
   \<and> obs_format_paper \<lparr>title = ''T'', summary = Some ''[TL;DR:] a[TL;DR:] b'', pdf_url = None\<rparr>
     = ''---\<newline>\<newline>### T\<newline>\<newline>#### TL;DR\<newline>\<newline>a\<newline>\<newline>#### TL;DR\<newline>\<newline>b\<newline>\<newline>''
   \<and> md_format_paper \<lparr>title = ''T'', summary = Some ''[TL;DR:] a[TL;DR:] b'', pdf_url = None\<rparr>
     \<noteq> md_format_paper \<lparr>title = ''T'', summary = Some ''[TL;DR:] b'', pdf_url = None\<rparr>"
  by code_simp

text \<open>
  Claim C1, amended. In the page renderer, when several candidate sections match the
  same label, the field of the paper's record holds the value of the last matching
  section, and the record has exactly one topics, one tldr and one summary field.
  The Markdown and the Obsidian renderer overwrite nothing: the paper's text holds
  the rendering of every section, in the order of the summary, so a label that
  matches twice gives two subsections.
\<close>

theorem last_match_wins_in_page:
  assumes "summary p = Some raw" and "raw \<noteq> []" and "sections raw = pre @ s # post"
  shows "(startswith (lower s) ''topics:]'' \<and> (\<forall>t\<in>set post. \<not> startswith (lower t) ''topics:]'')
           \<longrightarrow> map_of (web_paper_dict p) ''topics''
                 = Some (PyList (map strip (split (strip (re_sub_ci ''Topics:]'' s)) CHR '',''))))
       \<and> (startswith (lower s) ''tl;dr:]'' \<and> (\<forall>t\<in>set post. \<not> startswith (lower t) ''tl;dr:]'')
           \<longrightarrow> map_of (web_paper_dict p) ''tldr'' = Some (PyStr (strip (re_sub_ci ''TL;DR:]'' s))))
       \<and> (startswith (lower s) ''summary:]'' \<and> (\<forall>t\<in>set post. \<not> startswith (lower t) ''summary:]'')
           \<longrightarrow> map_of (web_paper_dict p) ''summary'' = Some (PyStr (strip (re_sub_ci ''Summary:]'' s))))
       \<and> map fst (web_paper_dict p) = [''title'', ''pdf_url'', ''topics'', ''tldr'', ''summary'']
       \<and> md_format_paper p =
           ''## '' @ title p @ ''\<newline>\<newline>''
             @ concat (map (md_section []) pre) @ md_section [] s @ concat (map (md_section []) post)
             @ (if truthy (pdf_url p)
                then ''**Paper URL**: ['' @ the (pdf_url p) @ '']('' @ the (pdf_url p) @ '')\<newline>\<newline>''
                else [])
             @ ''---\<newline>\<newline>''
       \<and> obs_format_paper p =
           ''---\<newline>\<newline>### '' @ title p @ ''\<newline>\<newline>''
             @ concat (map (obs_section []) pre) @ obs_section [] s @ concat (map (obs_section []) post)
             @ (if truthy (pdf_url p)
                then page_emoji @ '' [Paper Link]('' @ the (pdf_url p) @ '')\<newline>\<newline>''
                else [])"
proof -
  let ?d = "[(''title'', PyStr (title p)),
        (''pdf_url'', (case pdf_url p of None \<Rightarrow> PyNone | Some u \<Rightarrow> PyStr u)),
        (''topics'', PyList []), (''tldr'', PyStr []), (''summary'', PyStr [])]"
  have w: "web_paper_dict p = foldl web_section (web_section (foldl web_section ?d pre) s) post"
    using assms by (simp add: web_paper_dict_foldl)
  have 1: "startswith (lower s) ''topics:]'' \<and> (\<forall>t\<in>set post. \<not> startswith (lower t) ''topics:]'')
           \<longrightarrow> map_of (web_paper_dict p) ''topics''
                 = Some (PyList (map strip (split (strip (re_sub_ci ''Topics:]'' s)) CHR '','')))"
    unfolding w by (simp add: foldl_web_section_topics_miss web_section_topics_hit)
  have 2: "startswith (lower s) ''tl;dr:]'' \<and> (\<forall>t\<in>set post. \<not> startswith (lower t) ''tl;dr:]'')
           \<longrightarrow> map_of (web_paper_dict p) ''tldr'' = Some (PyStr (strip (re_sub_ci ''TL;DR:]'' s)))"
    unfolding w by (simp add: foldl_web_section_tldr_miss web_section_tldr_hit)
  have 3: "startswith (lower s) ''summary:]'' \<and> (\<forall>t\<in>set post. \<not> startswith (lower t) ''summary:]'')
           \<longrightarrow> map_of (web_paper_dict p) ''summary'' = Some (PyStr (strip (re_sub_ci ''Summary:]'' s)))"
    unfolding w by (simp add: foldl_web_section_summary_miss web_section_summary_hit)
  have 5: "md_format_paper p =
           ''## '' @ title p @ ''\<newline>\<newline>''
             @ concat (map (md_section []) pre) @ md_section [] s @ concat (map (md_section []) post)
             @ (if truthy (pdf_url p)
                then ''**Paper URL**: ['' @ the (pdf_url p) @ '']('' @ the (pdf_url p) @ '')\<newline>\<newline>''
                else [])
             @ ''---\<newline>\<newline>''"
    using assms by (simp add: md_format_paper_sections)
  have 6: "obs_format_paper p =
           ''---\<newline>\<newline>### '' @ title p @ ''\<newline>\<newline>''
             @ concat (map (obs_section []) pre) @ obs_section [] s @ concat (map (obs_section []) post)
             @ (if truthy (pdf_url p)
                then page_emoji @ '' [Paper Link]('' @ the (pdf_url p) @ '')\<newline>\<newline>''
                else [])"
    using assms by (simp add: obs_format_paper_sections)
  from 1 2 3 keys_web_paper_dict [of p] 5 6 show ?thesis by blast
qed

theorem last_match_wins_in_page_witness:
  "sections ''[TL;DR:] a[TL;DR:] b'' = [[], ''TL;DR:] a''] @ ''TL;DR:] b'' # []
   \<and> startswith (lower ''TL;DR:] b'') ''tl;dr:]''
   \<and> map_of (web_paper_dict \<lparr>title = ''T'', summary = Some ''[TL;DR:] a[TL;DR:] b'', pdf_url = None\<rparr>) ''tldr''
       = Some (PyStr ''b'')
   \<and> map fst (web_paper_dict \<lparr>title = ''T'', summary = Some ''[TL;DR:] a[TL;DR:] b'', pdf_url = None\<rparr>)
       = [''title'', ''pdf_url'', ''topics'', ''tldr'', ''summary'']"
proof -
  let ?p = "\<lparr>title = ''T'', summary = Some ''[TL;DR:] a[TL;DR:] b'', pdf_url = None\<rparr>"
  have a: "summary ?p = Some ''[TL;DR:] a[TL;DR:] b''" by simp
  have b: "''[TL;DR:] a[TL;DR:] b'' \<noteq> []" by simp
  have c: "sections ''[TL;DR:] a[TL;DR:] b'' = [[], ''TL;DR:] a''] @ ''TL;DR:] b'' # []"
    by code_simp
  have d: "startswith (lower ''TL;DR:] b'') ''tl;dr:]''"
    by code_simp
  have e: "strip (re_sub_ci ''TL;DR:]'' ''TL;DR:] b'') = ''b''"
    by code_simp
  from last_match_wins_in_page [OF a b c] d e
  have "map_of (web_paper_dict ?p) ''tldr'' = Some (PyStr ''b'')"
    and "map fst (web_paper_dict ?p) = [''title'', ''pdf_url'', ''topics'', ''tldr'', ''summary'']"
    by simp_all
  with c d show ?thesis by blast
qed

section \<open>A Topics section without content\<close>

lemma foldl_web_section_topics_nonempty:
  "\<exists>s\<in>set xs. startswith (lower s) ''topics:]'' \<Longrightarrow>
   \<exists>ys. ys \<noteq> [] \<and> map_of (foldl web_section d xs) ''topics'' = Some (PyList ys)"
proof (induction xs rule: rev_induct)
  case Nil
  then show ?case by simp
next
  case (snoc x xs)
  show ?case
  proof (cases "startswith (lower x) ''topics:]''")
    case True
    then have "map_of (foldl web_section d (xs @ [x])) ''topics''
        = Some (PyList (map strip (split (strip (re_sub_ci ''Topics:]'' x)) CHR '','')))"
      by (simp add: web_section_topics_hit)
    moreover have "map strip (split (strip (re_sub_ci ''Topics:]'' x)) CHR '','') \<noteq> []"
      by (simp add: split_not_Nil)
    ultimately show ?thesis by blast
  next
    case False
    with snoc.prems have "\<exists>s\<in>set xs. startswith (lower s) ''topics:]''" by auto
    then obtain ys where "ys \<noteq> []" "map_of (foldl web_section d xs) ''topics'' = Some (PyList ys)"
      using snoc.IH by blast
    with False show ?thesis by (simp add: web_section_topics_miss)
  qed
qed

lemma web_topics_empty_iff:
  "(map_of (web_paper_dict p) ''topics'' = Some (PyList []))
   = (\<not> (truthy (summary p) \<and> (\<exists>s\<in>set (sections (the (summary p))). startswith (lower s) ''topics:]'')))"
proof (cases "truthy (summary p)")
  case False
  then show ?thesis by (simp add: web_paper_dict_def)
next
  case True
  let ?d = "[(''title'', PyStr (title p)),
        (''pdf_url'', (case pdf_url p of None \<Rightarrow> PyNone | Some u \<Rightarrow> PyStr u)),
        (''topics'', PyList []), (''tldr'', PyStr []), (''summary'', PyStr [])]"
  from True have w: "web_paper_dict p = foldl web_section ?d (sections (the (summary p)))"
    by (simp add: web_paper_dict_def)
  show ?thesis
  proof (cases "\<exists>s\<in>set (sections (the (summary p))). startswith (lower s) ''topics:]''")
    case hit: True
    from foldl_web_section_topics_nonempty [OF hit, of ?d]
    obtain ys where "ys \<noteq> []" "map_of (web_paper_dict p) ''topics'' = Some (PyList ys)"
      unfolding w by blast
    with hit True show ?thesis by auto
  next
    case miss: False
    then have "map_of (web_paper_dict p) ''topics'' = map_of ?d ''topics''"
      unfolding w by (intro foldl_web_section_topics_miss) blast
    with miss show ?thesis by simp
  qed
qed

text \<open>
  Claim C10. In the page renderer, a summary whose Topics section has no content after
  the label, such as \<^verbatim>\<open>[Topics:]\<close>, gives the paper's record the topics list
  with the empty string as its only element: whenever the last section that matches
  the Topics label is empty once the label is removed and the rest trimmed. The
  topics field is the empty list exactly when the summary is absent or empty or none
  of its sections matches the Topics label.
\<close>

theorem empty_topics_section:
  "map_of (web_paper_dict \<lparr>title = ttl, summary = Some ''[Topics:]'', pdf_url = url\<rparr>) ''topics''
     = Some (PyList [''''])
   \<and> (summary p = Some raw \<and> raw \<noteq> [] \<and> sections raw = pre @ s # post
        \<and> startswith (lower s) ''topics:]'' \<and> (\<forall>t\<in>set post. \<not> startswith (lower t) ''topics:]'')
        \<and> strip (re_sub_ci ''Topics:]'' s) = []
       \<longrightarrow> map_of (web_paper_dict p) ''topics'' = Some (PyList ['''']))
   \<and> ((map_of (web_paper_dict p) ''topics'' = Some (PyList []))
       = (\<not> (truthy (summary p) \<and> (\<exists>s\<in>set (sections (the (summary p))). startswith (lower s) ''topics:]''))))"
proof -
  have s: "sections ''[Topics:]'' = [[]] @ ''Topics:]'' # []"
    by code_simp
  have h: "startswith (lower ''Topics:]'') ''topics:]''"
    by code_simp
  have e: "strip (re_sub_ci ''Topics:]'' ''Topics:]'') = []"
    by code_simp
  have g: "summary q = Some raw' \<and> raw' \<noteq> [] \<and> sections raw' = pre' @ s' # post'
        \<and> startswith (lower s') ''topics:]'' \<and> (\<forall>t\<in>set post'. \<not> startswith (lower t) ''topics:]'')
        \<and> strip (re_sub_ci ''Topics:]'' s') = []
       \<longrightarrow> map_of (web_paper_dict q) ''topics'' = Some (PyList [''''])" for q raw' pre' s' post'
  proof
    assume a: "summary q = Some raw' \<and> raw' \<noteq> [] \<and> sections raw' = pre' @ s' # post'
        \<and> startswith (lower s') ''topics:]'' \<and> (\<forall>t\<in>set post'. \<not> startswith (lower t) ''topics:]'')
        \<and> strip (re_sub_ci ''Topics:]'' s') = []"
    then have "map_of (web_paper_dict q) ''topics''
        = map_of (web_section (foldl web_section
             [(''title'', PyStr (title q)),
              (''pdf_url'', (case pdf_url q of None \<Rightarrow> PyNone | Some u \<Rightarrow> PyStr u)),
              (''topics'', PyList []), (''tldr'', PyStr []), (''summary'', PyStr [])] pre') s') ''topics''"
      by (simp add: web_paper_dict_foldl foldl_web_section_topics_miss)
    also have "\<dots> = Some (PyList (map strip (split (strip (re_sub_ci ''Topics:]'' s')) CHR '','')))"
      using a by (simp add: web_section_topics_hit)
    also have "\<dots> = Some (PyList [''''])"
    proof -
      from a have x: "strip (re_sub_ci ''Topics:]'' s') = []" by blast
      show ?thesis unfolding x by (simp add: strip_def)
    qed
    finally show "map_of (web_paper_dict q) ''topics'' = Some (PyList [''''])" .
  qed
  have 1: "map_of (web_paper_dict \<lparr>title = ttl, summary = Some ''[Topics:]'', pdf_url = url\<rparr>) ''topics''
     = Some (PyList [''''])"
    using g [of "\<lparr>title = ttl, summary = Some ''[Topics:]'', pdf_url = url\<rparr>" "''[Topics:]''" "[[]]" "''Topics:]''" "[]"] s h e
    by simp
  from 1 g [of p raw pre s post] web_topics_empty_iff [of p] show ?thesis by blast
qed

theorem empty_topics_section_witness:
  \<open>sections ''[Topics:] [TL;DR:] x'' = [[]] @ ''Topics:] '' # [''TL;DR:] x'']
   \<and> startswith (lower ''Topics:] '') ''topics:]''
   \<and> strip (re_sub_ci ''Topics:]'' ''Topics:] '') = []
   \<and> map_of (web_paper_dict \<lparr>title = ''T'', summary = Some ''[Topics:] [TL;DR:] x'', pdf_url = None\<rparr>) ''topics''
       = Some (PyList [''''])
   \<and> json_dict (web_paper_dict \<lparr>title = ''T'', summary = Some ''[Topics:] [TL;DR:] x'', pdf_url = None\<rparr>)
       = ''{"title": "T", "pdf_url": null, "topics": [""], "tldr": "x", "summary": ""}''
   \<and> map_of (web_paper_dict \<lparr>title = ''T'', summary = Some ''[TL;DR:] x'', pdf_url = None\<rparr>) ''topics''
       = Some (PyList [])\<close>
proof -
  let ?p = "\<lparr>title = ''T'', summary = Some ''[Topics:] [TL;DR:] x'', pdf_url = None\<rparr>"
  let ?q = "\<lparr>title = ''T'', summary = Some ''[TL;DR:] x'', pdf_url = None\<rparr>"
  have a: "summary ?p = Some ''[Topics:] [TL;DR:] x'' \<and> ''[Topics:] [TL;DR:] x'' \<noteq> []" by simp
  have c: "sections ''[Topics:] [TL;DR:] x'' = [[]] @ ''Topics:] '' # [''TL;DR:] x'']"
    by code_simp
  have d: "startswith (lower ''Topics:] '') ''topics:]''"
    by code_simp
  have d': "\<forall>t\<in>set [''TL;DR:] x'']. \<not> startswith (lower t) ''topics:]''"
    by code_simp
  have e: "strip (re_sub_ci ''Topics:]'' ''Topics:] '') = []"
    by code_simp
  have j: \<open>json_dict (web_paper_dict ?p)
       = ''{"title": "T", "pdf_url": null, "topics": [""], "tldr": "x", "summary": ""}''\<close>
    by code_simp
  have n: "\<not> (truthy (summary ?q) \<and> (\<exists>s\<in>set (sections (the (summary ?q))). startswith (lower s) ''topics:]''))"
    by code_simp
  from empty_topics_section [of "''T''" None ?p "''[Topics:] [TL;DR:] x''" "[[]]" "''Topics:] ''" "[''TL;DR:] x'']"] a c d d' e
  have 1: "map_of (web_paper_dict ?p) ''topics'' = Some (PyList [''''])"
    by blast
  from empty_topics_section [of "''T''" None ?q "''[TL;DR:] x''" "[]" "[]" "[]"] n
  have 2: "map_of (web_paper_dict ?q) ''topics'' = Some (PyList [])"
    by blast
  from c d e 1 j 2 show ?thesis by blast
qed

section \<open>A summary without an opening bracket\<close>

lemma sections_no_bracket: "CHR ''['' \<notin> set raw \<Longrightarrow> sections raw = [clean_summary raw]"
  unfolding sections_def using set_clean_summary [of raw] by (intro split_no_sep) blast

lemma web_section_no_label:
  "\<not> startswith (lower s) ''topics:]'' \<Longrightarrow> \<not> startswith (lower s) ''tl;dr:]'' \<Longrightarrow>
   \<not> startswith (lower s) ''summary:]'' \<Longrightarrow> web_section d s = d"
  by (simp add: web_section_def)

lemma md_section_no_label:
  "\<not> startswith (lower s) ''topics:]'' \<Longrightarrow> \<not> startswith (lower s) ''tl;dr:]'' \<Longrightarrow>
   \<not> startswith (lower s) ''summary:]'' \<Longrightarrow> md_section md s = md"
  by (simp add: md_section_def)

lemma obs_section_no_label:
  "\<not> startswith (lower s) ''topics:]'' \<Longrightarrow> \<not> startswith (lower s) ''tl;dr:]'' \<Longrightarrow>
   \<not> startswith (lower s) ''summary:]'' \<Longrightarrow> obs_section md s = md"
  by (simp add: obs_section_def)

text \<open>
  Claim C2, as stated, fails: a summary without any opening bracket is a single
  candidate section, and that section is tested against the labels like every other
  one. The summary \<^verbatim>\<open>Topics:] a\<close> has no opening bracket, yet its topics are
  parsed and rendered.
\<close>

theorem label_without_bracket_is_parsed:
  "CHR ''['' \<notin> set ''Topics:] a''
   \<and> web_paper_dict \<lparr>title = ''T'', summary = Some ''Topics:] a'', pdf_url = None\<rparr>
       = [(''title'', PyStr ''T''), (''pdf_url'', PyNone), (''topics'', PyList [''a'']),
          (''tldr'', PyStr []), (''summary'', PyStr [])]
   \<and> md_format_paper \<lparr>title = ''T'', summary = Some ''Topics:] a'', pdf_url = None\<rparr>
       = ''## T\<newline>\<newline>### Topics\<newline>\<newline>a\<newline>\<newline>---\<newline>\<newline>''"
  by code_simp

text \<open>
  Claim C2, amended. For every summary that contains no opening bracket and, once the
  emphasis markers are removed, does not begin with one of the three labels (letter
  case aside), the record of the page renderer has the empty topics list and the
  empty tldr and summary strings, and the Markdown and the Obsidian renderer write
  the paper with its heading and its link only.
\<close>

theorem no_bracket_no_label:
  assumes "summary p = Some raw" and "CHR ''['' \<notin> set raw"
    and "\<not> startswith (lower (clean_summary raw)) ''topics:]''"
    and "\<not> startswith (lower (clean_summary raw)) ''tl;dr:]''"
    and "\<not> startswith (lower (clean_summary raw)) ''summary:]''"
  shows "web_paper_dict p =
           [(''title'', PyStr (title p)),
            (''pdf_url'', (case pdf_url p of None \<Rightarrow> PyNone | Some u \<Rightarrow> PyStr u)),
            (''topics'', PyList []), (''tldr'', PyStr []), (''summary'', PyStr [])]
       \<and> md_format_paper p =
           ''## '' @ title p @ ''\<newline>\<newline>''
             @ (if truthy (pdf_url p)
                then ''**Paper URL**: ['' @ the (pdf_url p) @ '']('' @ the (pdf_url p) @ '')\<newline>\<newline>''
                else [])
             @ ''---\<newline>\<newline>''
       \<and> obs_format_paper p =
           ''---\<newline>\<newline>### '' @ title p @ ''\<newline>\<newline>''
             @ (if truthy (pdf_url p)
                then page_emoji @ '' [Paper Link]('' @ the (pdf_url p) @ '')\<newline>\<newline>''
                else [])"
proof (cases "raw = []")
  case True
  with assms(1) show ?thesis
    by (simp add: web_paper_dict_def md_format_paper_def obs_format_paper_def truthy_def Let_def)
next
  case False
  from assms(2) have s: "sections raw = [clean_summary raw]"
    by (rule sections_no_bracket)
  from assms(1) False s assms(3-5) show ?thesis
    by (simp add: web_paper_dict_foldl md_format_paper_sections obs_format_paper_sections
        web_section_no_label md_section_no_label obs_section_no_label)
qed

theorem no_bracket_no_label_witness:
  "CHR ''['' \<notin> set ''A study of **graphs**''
   \<and> \<not> startswith (lower (clean_summary ''A study of **graphs**'')) ''topics:]''
   \<and> \<not> startswith (lower (clean_summary ''A study of **graphs**'')) ''tl;dr:]''
   \<and> \<not> startswith (lower (clean_summary ''A study of **graphs**'')) ''summary:]''
   \<and> web_paper_dict \<lparr>title = ''T'', summary = Some ''A study of **graphs**'', pdf_url = Some ''u''\<rparr>
       = [(''title'', PyStr ''T''), (''pdf_url'', PyStr ''u''), (''topics'', PyList []),
          (''tldr'', PyStr []), (''summary'', PyStr [])]
   \<and> md_format_paper \<lparr>title = ''T'', summary = Some ''A study of **graphs**'', pdf_url = Some ''u''\<rparr>
       = ''## T\<newline>\<newline>**Paper URL**: [u](u)\<newline>\<newline>---\<newline>\<newline>''"
proof -
  let ?p = "\<lparr>title = ''T'', summary = Some ''A study of **graphs**'', pdf_url = Some ''u''\<rparr>"
  have a: "summary ?p = Some ''A study of **graphs**''" by simp
  have b: "CHR ''['' \<notin> set ''A study of **graphs**''" by simp
  have c1: "\<not> startswith (lower (clean_summary ''A study of **graphs**'')) ''topics:]''"
    by code_simp
  have c2: "\<not> startswith (lower (clean_summary ''A study of **graphs**'')) ''tl;dr:]''"
    by code_simp
  have c3: "\<not> startswith (lower (clean_summary ''A study of **graphs**'')) ''summary:]''"
    by code_simp
  from no_bracket_no_label [OF a b c1 c2 c3] b c1 c2 c3 show ?thesis
    by (simp add: truthy_def)
qed

section \<open>Subsections of the Markdown renderer\<close>

lemma md_section_topics_only:
  "\<not> startswith (lower t) ''tl;dr:]'' \<Longrightarrow> \<not> startswith (lower t) ''summary:]'' \<Longrightarrow>
   md_section [] t =
     (if startswith (lower t) ''topics:]''
      then ''### Topics\<newline>\<newline>'' @ strip (re_sub_ci ''Topics:]'' t) @ ''\<newline>\<newline>''
      else [])"
  by (simp add: md_section_def)

text \<open>
  Claim C3, as stated, fails: the Markdown renderer writes the subheading of every
  section that matches a label and does not look at the content. For the summary
  \<^verbatim>\<open>[TL;DR:]\<close> the parsed tldr and summary are both empty, and the rendered
  section has a TL;DR subheading over an empty body.
\<close>

theorem empty_tldr_still_headed:
  "strip (re_sub_ci ''TL;DR:]'' ''TL;DR:]'') = []
   \<and> map_of (web_paper_dict \<lparr>title = ''T'', summary = Some ''[TL;DR:]'', pdf_url = None\<rparr>) ''tldr''
       = Some (PyStr [])
   \<and> map_of (web_paper_dict \<lparr>title = ''T'', summary = Some ''[TL;DR:]'', pdf_url = None\<rparr>) ''summary''
       = Some (PyStr [])
   \<and> md_format_paper \<lparr>title = ''T'', summary = Some ''[TL;DR:]'', pdf_url = None\<rparr>
       = ''## T\<newline>\<newline>### TL;DR\<newline>\<newline>\<newline>\<newline>---\<newline>\<newline>''"
  by code_simp

text \<open>
  Claim C3, amended. For every paper record none of whose candidate sections starts
  with the TL;DR or the Summary label (in particular a record without summary), the
  section the Markdown renderer writes consists of the paper's heading, one Topics
  subsection for each section that starts with the Topics label, the link line if
  the record has a URL, and the rule: it has no TL;DR and no Summary subsection, and
  the heading is present.
\<close>

theorem subsection_omitted_without_match:
  assumes "truthy (summary p) \<longrightarrow>
            (\<forall>t\<in>set (sections (the (summary p))).
               \<not> startswith (lower t) ''tl;dr:]'' \<and> \<not> startswith (lower t) ''summary:]'')"
  shows "md_format_paper p =
           ''## '' @ title p @ ''\<newline>\<newline>''
             @ (if truthy (summary p)
                then concat (map (\<lambda>t. if startswith (lower t) ''topics:]''
                                       then ''### Topics\<newline>\<newline>'' @ strip (re_sub_ci ''Topics:]'' t) @ ''\<newline>\<newline>''
                                       else [])
                              (sections (the (summary p))))
                else [])
             @ (if truthy (pdf_url p)
                then ''**Paper URL**: ['' @ the (pdf_url p) @ '']('' @ the (pdf_url p) @ '')\<newline>\<newline>''
                else [])
             @ ''---\<newline>\<newline>''"
proof (cases "truthy (summary p)")
  case False
  then show ?thesis by (simp add: md_format_paper_def Let_def)
next
  case True
  with assms have m: "map (md_section []) (sections (the (summary p)))
      = map (\<lambda>t. if startswith (lower t) ''topics:]''
                  then ''### Topics\<newline>\<newline>'' @ strip (re_sub_ci ''Topics:]'' t) @ ''\<newline>\<newline>''
                  else [])
            (sections (the (summary p)))"
    by (intro map_cong refl md_section_topics_only) blast+
  from True show ?thesis
    by (simp add: md_format_paper_def Let_def foldl_md_section m)
qed

theorem subsection_omitted_without_match_witness:
  "truthy (summary \<lparr>title = ''T'', summary = Some ''[Topics:] nlp'', pdf_url = None\<rparr>)
   \<and> sections ''[Topics:] nlp'' = [[], ''Topics:] nlp'']
   \<and> \<not> startswith (lower []) ''tl;dr:]'' \<and> \<not> startswith (lower []) ''summary:]''
   \<and> \<not> startswith (lower ''Topics:] nlp'') ''tl;dr:]'' \<and> \<not> startswith (lower ''Topics:] nlp'') ''summary:]''
   \<and> md_format_paper \<lparr>title = ''T'', summary = Some ''[Topics:] nlp'', pdf_url = None\<rparr>
       = ''## T\<newline>\<newline>### Topics\<newline>\<newline>nlp\<newline>\<newline>---\<newline>\<newline>''
   \<and> md_format_paper \<lparr>title = ''T'', summary = None, pdf_url = None\<rparr>
       = ''## T\<newline>\<newline>---\<newline>\<newline>''"
proof -
  let ?p = "\<lparr>title = ''T'', summary = Some ''[Topics:] nlp'', pdf_url = None\<rparr>"
  let ?q = "\<lparr>title = ''T'', summary = None, pdf_url = None\<rparr>"
  have t: "truthy (summary ?p)" by (simp add: truthy_def)
  have s: "sections ''[Topics:] nlp'' = [[], ''Topics:] nlp'']" by code_simp
  have n: "\<not> startswith (lower []) ''tl;dr:]''" "\<not> startswith (lower []) ''summary:]''"
    "\<not> startswith (lower ''Topics:] nlp'') ''tl;dr:]''" "\<not> startswith (lower ''Topics:] nlp'') ''summary:]''"
    by code_simp+
  have y: "startswith (lower ''Topics:] nlp'') ''topics:]''" "\<not> startswith (lower []) ''topics:]''"
    by code_simp+
  have v: "strip (re_sub_ci ''Topics:]'' ''Topics:] nlp'') = ''nlp''" by code_simp
  have h: "truthy (summary ?p) \<longrightarrow>
            (\<forall>t\<in>set (sections (the (summary ?p))).
               \<not> startswith (lower t) ''tl;dr:]'' \<and> \<not> startswith (lower t) ''summary:]'')"
    using s n by simp
  have hq: "truthy (summary ?q) \<longrightarrow>
            (\<forall>t\<in>set (sections (the (summary ?q))).
               \<not> startswith (lower t) ''tl;dr:]'' \<and> \<not> startswith (lower t) ''summary:]'')"
    by (simp add: truthy_def)
  have 1: "md_format_paper ?p = ''## T\<newline>\<newline>### Topics\<newline>\<newline>nlp\<newline>\<newline>---\<newline>\<newline>''"
    using subsection_omitted_without_match [OF h] t s y v by (simp add: truthy_def)
  have 2: "md_format_paper ?q = ''## T\<newline>\<newline>---\<newline>\<newline>''"
    using subsection_omitted_without_match [OF hq] by (simp add: truthy_def)
  from t s n 1 2 show ?thesis by blast
qed

section \<open>Removing the label from a section\<close>

lemma re_sub_ci_label:
  "startswith (lower s) ''topics:]'' \<Longrightarrow> re_sub_ci ''Topics:]'' s = re_sub_ci ''Topics:]'' (drop 8 s)"
  "startswith (lower s) ''tl;dr:]'' \<Longrightarrow> re_sub_ci ''TL;DR:]'' s = re_sub_ci ''TL;DR:]'' (drop 7 s)"
  "startswith (lower s) ''summary:]'' \<Longrightarrow> re_sub_ci ''Summary:]'' s = re_sub_ci ''Summary:]'' (drop 9 s)"
  using re_sub_ci_match [of "''Topics:]''" s] re_sub_ci_match [of "''TL;DR:]''" s]
    re_sub_ci_match [of "''Summary:]''" s]
  by (simp_all add: match_labels eval_nat_numeral)

lemma re_sub_ci_first_occurrence:
  assumes "pat \<noteq> []" and "lower m = lower pat"
  shows "free_before pat xs (m @ ys) \<Longrightarrow> re_sub_ci pat (xs @ m @ ys) = xs @ re_sub_ci pat ys"
proof (induction xs)
  case Nil
  from assms(2) have len: "length m = length pat"
    by (metis length_map lower_def)
  with assms(2) have "match_ci pat (m @ ys)"
    by (simp add: match_ci_def)
  with assms(1) have "re_sub_ci pat (m @ ys) = re_sub_ci pat (drop (length pat) (m @ ys))"
    by (rule re_sub_ci_match)
  with len show ?case by simp
next
  case (Cons c cs)
  then show ?case by simp
qed

text \<open>
  Claim C4, as stated, fails: the label is removed by a substitution over the whole
  section, so the text of the label is deleted from the body as well. The section
  \<^verbatim>\<open>Summary:] see Summary:] above\<close> without its prefix, trimmed, is
  \<^verbatim>\<open>see Summary:] above\<close>; the value assigned is \<^verbatim>\<open>see  above\<close>.
\<close>

theorem later_label_text_deleted:
  "startswith (lower ''Summary:] see Summary:] above'') ''summary:]''
   \<and> strip (drop 9 ''Summary:] see Summary:] above'') = ''see Summary:] above''
   \<and> map_of (web_paper_dict \<lparr>title = ''T'', summary = Some ''[Summary:] see Summary:] above'', pdf_url = None\<rparr>)
        ''summary'' = Some (PyStr ''see  above'')
   \<and> md_format_paper \<lparr>title = ''T'', summary = Some ''[Summary:] see Summary:] above'', pdf_url = None\<rparr>
       = ''## T\<newline>\<newline>### Summary\<newline>\<newline>see  above\<newline>\<newline>---\<newline>\<newline>''"
  by code_simp

text \<open>
  Claim C4, amended. For every candidate section that starts with a label (letter
  case aside), the value assigned is obtained by removing the label-and-bracket
  prefix, deleting every further occurrence of the label-and-bracket text (letter
  case aside) from the rest of the section, and trimming the surrounding
  whitespace. The deletion goes from the left: a text in which the label does not
  occur is kept unchanged; in a text \<open>xs @ m @ ys\<close> whose first occurrence is
  \<open>m\<close>, that occurrence is deleted and the deletion goes on in \<open>ys\<close>. So a
  section whose rest is \<open>xs @ m @ ys\<close>, with the label text \<open>m\<close> occurring this
  once, gets the value \<open>xs @ ys\<close>, trimmed.
\<close>

theorem label_deleted_everywhere:
  "(startswith (lower s) ''topics:]'' \<longrightarrow>
      web_section d s
        = dict_set d ''topics''
            (PyList (map strip (split (strip (re_sub_ci ''Topics:]'' (drop 8 s))) CHR '','')))
      \<and> md_section md s
        = md @ ''### Topics\<newline>\<newline>'' @ strip (re_sub_ci ''Topics:]'' (drop 8 s)) @ ''\<newline>\<newline>'')
   \<and> (startswith (lower s) ''tl;dr:]'' \<longrightarrow>
      web_section d s = dict_set d ''tldr'' (PyStr (strip (re_sub_ci ''TL;DR:]'' (drop 7 s))))
      \<and> md_section md s
        = md @ ''### TL;DR\<newline>\<newline>'' @ strip (re_sub_ci ''TL;DR:]'' (drop 7 s)) @ ''\<newline>\<newline>'')
   \<and> (startswith (lower s) ''summary:]'' \<longrightarrow>
      web_section d s = dict_set d ''summary'' (PyStr (strip (re_sub_ci ''Summary:]'' (drop 9 s))))
      \<and> md_section md s
        = md @ ''### Summary\<newline>\<newline>'' @ strip (re_sub_ci ''Summary:]'' (drop 9 s)) @ ''\<newline>\<newline>'')
   \<and> (\<not> occurs_ci pat body \<longrightarrow> re_sub_ci pat body = body)
   \<and> (pat \<noteq> [] \<and> lower m = lower pat \<and> free_before pat xs (m @ ys)
        \<longrightarrow> re_sub_ci pat (xs @ m @ ys) = xs @ re_sub_ci pat ys)
   \<and> (startswith (lower s) ''topics:]'' \<and> drop 8 s = xs @ m @ ys \<and> lower m = ''topics:]''
        \<and> free_before ''Topics:]'' xs (m @ ys) \<and> \<not> occurs_ci ''Topics:]'' ys
        \<longrightarrow> web_section d s
              = dict_set d ''topics'' (PyList (map strip (split (strip (xs @ ys)) CHR '','')))
          \<and> md_section md s = md @ ''### Topics\<newline>\<newline>'' @ strip (xs @ ys) @ ''\<newline>\<newline>'')
   \<and> (startswith (lower s) ''tl;dr:]'' \<and> drop 7 s = xs @ m @ ys \<and> lower m = ''tl;dr:]''
        \<and> free_before ''TL;DR:]'' xs (m @ ys) \<and> \<not> occurs_ci ''TL;DR:]'' ys
        \<longrightarrow> web_section d s = dict_set d ''tldr'' (PyStr (strip (xs @ ys)))
          \<and> md_section md s = md @ ''### TL;DR\<newline>\<newline>'' @ strip (xs @ ys) @ ''\<newline>\<newline>'')
   \<and> (startswith (lower s) ''summary:]'' \<and> drop 9 s = xs @ m @ ys \<and> lower m = ''summary:]''
        \<and> free_before ''Summary:]'' xs (m @ ys) \<and> \<not> occurs_ci ''Summary:]'' ys
        \<longrightarrow> web_section d s = dict_set d ''summary'' (PyStr (strip (xs @ ys)))
          \<and> md_section md s = md @ ''### Summary\<newline>\<newline>'' @ strip (xs @ ys) @ ''\<newline>\<newline>'')"
proof -
  have 1: "startswith (lower s) ''topics:]'' \<longrightarrow>
      web_section d s
        = dict_set d ''topics''
            (PyList (map strip (split (strip (re_sub_ci ''Topics:]'' (drop 8 s))) CHR '','')))
      \<and> md_section md s
        = md @ ''### Topics\<newline>\<newline>'' @ strip (re_sub_ci ''Topics:]'' (drop 8 s)) @ ''\<newline>\<newline>''"
    by (simp add: web_section_def md_section_def re_sub_ci_label [symmetric])
  have 2: "startswith (lower s) ''tl;dr:]'' \<longrightarrow>
      web_section d s = dict_set d ''tldr'' (PyStr (strip (re_sub_ci ''TL;DR:]'' (drop 7 s))))
      \<and> md_section md s
        = md @ ''### TL;DR\<newline>\<newline>'' @ strip (re_sub_ci ''TL;DR:]'' (drop 7 s)) @ ''\<newline>\<newline>''"
    by (simp add: web_section_def md_section_def re_sub_ci_label [symmetric] labels_exclusive)
  have 3: "startswith (lower s) ''summary:]'' \<longrightarrow>
      web_section d s = dict_set d ''summary'' (PyStr (strip (re_sub_ci ''Summary:]'' (drop 9 s))))
      \<and> md_section md s
        = md @ ''### Summary\<newline>\<newline>'' @ strip (re_sub_ci ''Summary:]'' (drop 9 s)) @ ''\<newline>\<newline>''"
    by (simp add: web_section_def md_section_def re_sub_ci_label [symmetric] labels_exclusive)
  have 4: "\<not> occurs_ci pat body \<longrightarrow> re_sub_ci pat body = body"
    by (simp add: re_sub_ci_no_occurrence)
  have 5: "pat \<noteq> [] \<and> lower m = lower pat \<and> free_before pat xs (m @ ys)
        \<longrightarrow> re_sub_ci pat (xs @ m @ ys) = xs @ re_sub_ci pat ys"
    by (simp add: re_sub_ci_first_occurrence)
  have del: "lower m = lower L \<and> L \<noteq> [] \<and> free_before L xs (m @ ys) \<and> \<not> occurs_ci L ys
      \<longrightarrow> re_sub_ci L (xs @ m @ ys) = xs @ ys" for L
    by (simp add: re_sub_ci_first_occurrence re_sub_ci_no_occurrence)
  have 6: "startswith (lower s) ''topics:]'' \<and> drop 8 s = xs @ m @ ys \<and> lower m = ''topics:]''
        \<and> free_before ''Topics:]'' xs (m @ ys) \<and> \<not> occurs_ci ''Topics:]'' ys
        \<longrightarrow> web_section d s
              = dict_set d ''topics'' (PyList (map strip (split (strip (xs @ ys)) CHR '','')))
          \<and> md_section md s = md @ ''### Topics\<newline>\<newline>'' @ strip (xs @ ys) @ ''\<newline>\<newline>''"
    using 1 del [of "''Topics:]''"] by (simp add: lower_labels)
  have 7: "startswith (lower s) ''tl;dr:]'' \<and> drop 7 s = xs @ m @ ys \<and> lower m = ''tl;dr:]''
        \<and> free_before ''TL;DR:]'' xs (m @ ys) \<and> \<not> occurs_ci ''TL;DR:]'' ys
        \<longrightarrow> web_section d s = dict_set d ''tldr'' (PyStr (strip (xs @ ys)))
          \<and> md_section md s = md @ ''### TL;DR\<newline>\<newline>'' @ strip (xs @ ys) @ ''\<newline>\<newline>''"
    using 2 del [of "''TL;DR:]''"] by (simp add: lower_labels)
  have 8: "startswith (lower s) ''summary:]'' \<and> drop 9 s = xs @ m @ ys \<and> lower m = ''summary:]''
        \<and> free_before ''Summary:]'' xs (m @ ys) \<and> \<not> occurs_ci ''Summary:]'' ys
        \<longrightarrow> web_section d s = dict_set d ''summary'' (PyStr (strip (xs @ ys)))
          \<and> md_section md s = md @ ''### Summary\<newline>\<newline>'' @ strip (xs @ ys) @ ''\<newline>\<newline>''"
    using 3 del [of "''Summary:]''"] by (simp add: lower_labels)
  from 1 2 3 4 5 6 7 8 show ?thesis by blast
qed

theorem label_deleted_everywhere_witness:
  "startswith (lower ''TL;DR:] one tl;dr:] two '') ''tl;dr:]''
   \<and> drop 7 ''TL;DR:] one tl;dr:] two '' = '' one '' @ ''tl;dr:]'' @ '' two ''
   \<and> lower ''tl;dr:]'' = ''tl;dr:]''
   \<and> free_before ''TL;DR:]'' '' one '' (''tl;dr:]'' @ '' two '')
   \<and> \<not> occurs_ci ''TL;DR:]'' '' two ''
   \<and> re_sub_ci ''TL;DR:]'' ('' one '' @ ''tl;dr:]'' @ '' two '') = '' one '' @ '' two ''
   \<and> web_section [(''tldr'', PyStr [])] ''TL;DR:] one tl;dr:] two ''
       = [(''tldr'', PyStr ''one  two'')]
   \<and> md_section ''## T'' ''TL;DR:] one tl;dr:] two ''
       = ''## T### TL;DR\<newline>\<newline>one  two\<newline>\<newline>''
   \<and> startswith (lower ''tl;dr:]  Short, and to the point. '') ''tl;dr:]''
   \<and> \<not> occurs_ci ''TL;DR:]'' (drop 7 ''tl;dr:]  Short, and to the point. '')
   \<and> web_section [(''tldr'', PyStr [])] ''tl;dr:]  Short, and to the point. ''
       = [(''tldr'', PyStr ''Short, and to the point.'')]"
proof -
  let ?s = "''TL;DR:] one tl;dr:] two ''" and ?t = "''tl;dr:]  Short, and to the point. ''"
  let ?d = "[(''tldr'', PyStr [])]"
  have a: "startswith (lower ?s) ''tl;dr:]''" by code_simp
  have b: "drop 7 ?s = '' one '' @ ''tl;dr:]'' @ '' two ''" by simp
  have c: "lower ''tl;dr:]'' = ''tl;dr:]''" by code_simp
  have c': "lower ''tl;dr:]'' = lower ''TL;DR:]''" by code_simp
  have e: "free_before ''TL;DR:]'' '' one '' (''tl;dr:]'' @ '' two '')" by code_simp
  have f: "\<not> occurs_ci ''TL;DR:]'' '' two ''" by code_simp
  have g: "strip ('' one '' @ '' two '') = ''one  two''" by code_simp
  have ne: "''TL;DR:]'' \<noteq> []" by simp
  note inst = label_deleted_everywhere [of ?s ?d "''## T''" "''TL;DR:]''" "'' two ''" "''tl;dr:]''" "'' one ''" "'' two ''"]
  from inst f have r0: "re_sub_ci ''TL;DR:]'' '' two '' = '' two ''" by blast
  from inst ne c' e have "re_sub_ci ''TL;DR:]'' ('' one '' @ ''tl;dr:]'' @ '' two '') = '' one '' @ re_sub_ci ''TL;DR:]'' '' two ''"
    by blast
  with r0 have r: "re_sub_ci ''TL;DR:]'' ('' one '' @ ''tl;dr:]'' @ '' two '') = '' one '' @ '' two ''"
    by simp
  from inst a b c e f
  have w: "web_section ?d ?s = dict_set ?d ''tldr'' (PyStr (strip ('' one '' @ '' two '')))"
    and m: "md_section ''## T'' ?s = ''## T'' @ ''### TL;DR\<newline>\<newline>'' @ strip ('' one '' @ '' two '') @ ''\<newline>\<newline>''"
    by blast+
  from w have w': "web_section ?d ?s = [(''tldr'', PyStr ''one  two'')]"
    unfolding g by simp
  from m have m': "md_section ''## T'' ?s = ''## T### TL;DR\<newline>\<newline>one  two\<newline>\<newline>''"
    unfolding g by simp
  have a2: "startswith (lower ?t) ''tl;dr:]''" by code_simp
  have b2: "\<not> occurs_ci ''TL;DR:]'' (drop 7 ?t)" by code_simp
  have c2: "strip (drop 7 ?t) = ''Short, and to the point.''" by code_simp
  from label_deleted_everywhere [of ?t ?d "''## T''" "''TL;DR:]''" "drop 7 ?t" "[]" "[]" "[]"] a2 b2
  have "web_section ?d ?t = dict_set ?d ''tldr'' (PyStr (strip (drop 7 ?t)))"
    by simp
  then have w2: "web_section ?d ?t = [(''tldr'', PyStr ''Short, and to the point.'')]"
    unfolding c2 by simp
  from a b c e f r w' m' a2 b2 w2 show ?thesis by blast
qed

section \<open>The well-formed summary\<close>

lemma notin_of_lower:
  assumes "lower l = k" and "lower_char c = c" and "c \<notin> set k"
  shows "c \<notin> set l"
proof
  assume "c \<in> set l"
  then have "lower_char c \<in> set (lower l)" by (simp add: lower_def)
  with assms show False by simp
qed

lemma lower_char_fixed:
  "lower_char CHR ''*'' = CHR ''*''" "lower_char CHR ''_'' = CHR ''_''" "lower_char CHR ''['' = CHR ''[''"
  by (simp_all add: lower_char_def)

lemma clean_summary_unchanged:
  "CHR ''*'' \<notin> set s \<Longrightarrow> CHR ''_'' \<notin> set s \<Longrightarrow> clean_summary s = s"
  by (simp add: clean_summary_def replace_def replace_from_unchanged)

lemma length_of_lower: "lower l = k \<Longrightarrow> length l = length k"
  by (metis length_map lower_def)

text \<open>
  Claim C5. For the summary that consists of the three labeled sections
  \<^verbatim>\<open>[Topics:] a, b[TL;DR:] x[Summary:] y\<close>, with the letters of the three labels
  in any case, the parsed record has the topics \<^verbatim>\<open>a\<close> and \<^verbatim>\<open>b\<close>, the tldr
  \<^verbatim>\<open>x\<close> and the summary \<^verbatim>\<open>y\<close>.
\<close>

theorem well_formed_summary_parsed:
  assumes "lower l1 = ''topics:''" and "lower l2 = ''tl;dr:''" and "lower l3 = ''summary:''"
  shows "web_paper_dict
           \<lparr>title = ttl,
            summary = Some (''['' @ l1 @ ''] a, b['' @ l2 @ ''] x['' @ l3 @ ''] y''),
            pdf_url = url\<rparr>
         = [(''title'', PyStr ttl),
            (''pdf_url'', (case url of None \<Rightarrow> PyNone | Some u \<Rightarrow> PyStr u)),
            (''topics'', PyList [''a'', ''b'']),
            (''tldr'', PyStr ''x''),
            (''summary'', PyStr ''y'')]"
proof -
  let ?A = "l1 @ ''] a, b''" and ?B = "l2 @ ''] x''" and ?C = "l3 @ ''] y''"
  let ?raw = "''['' @ l1 @ ''] a, b['' @ l2 @ ''] x['' @ l3 @ ''] y''"
  have star: "CHR ''*'' \<notin> set l1" "CHR ''*'' \<notin> set l2" "CHR ''*'' \<notin> set l3"
    using notin_of_lower [OF assms(1) lower_char_fixed(1)] notin_of_lower [OF assms(2) lower_char_fixed(1)]
      notin_of_lower [OF assms(3) lower_char_fixed(1)]
    by simp_all
  have under: "CHR ''_'' \<notin> set l1" "CHR ''_'' \<notin> set l2" "CHR ''_'' \<notin> set l3"
    using notin_of_lower [OF assms(1) lower_char_fixed(2)] notin_of_lower [OF assms(2) lower_char_fixed(2)]
      notin_of_lower [OF assms(3) lower_char_fixed(2)]
    by simp_all
  have brack: "CHR ''['' \<notin> set l1" "CHR ''['' \<notin> set l2" "CHR ''['' \<notin> set l3"
    using notin_of_lower [OF assms(1) lower_char_fixed(3)] notin_of_lower [OF assms(2) lower_char_fixed(3)]
      notin_of_lower [OF assms(3) lower_char_fixed(3)]
    by simp_all
  have len: "length l1 = 7" "length l2 = 6" "length l3 = 8"
    using assms by (auto dest: length_of_lower)
  have clean: "clean_summary ?raw = ?raw"
    using star under by (intro clean_summary_unchanged) simp_all
  have raw: "?raw = [] @ CHR ''['' # (?A @ CHR ''['' # (?B @ CHR ''['' # ?C))"
    by simp
  have sp1: "split ?raw CHR ''['' = [] # split (?A @ CHR ''['' # (?B @ CHR ''['' # ?C)) CHR ''[''"
    unfolding raw by (rule split_append_sep) simp
  have sp2: "split (?A @ CHR ''['' # (?B @ CHR ''['' # ?C)) CHR ''[''
      = ?A # split (?B @ CHR ''['' # ?C) CHR ''[''"
    using brack by (intro split_append_sep) simp
  have sp3: "split (?B @ CHR ''['' # ?C) CHR ''['' = ?B # split ?C CHR ''[''"
    using brack by (intro split_append_sep) simp
  have sp4: "split ?C CHR ''['' = [?C]"
    using brack by (intro split_no_sep) simp
  have sp: "split ?raw CHR ''['' = [[], ?A, ?B, ?C]"
    by (simp only: sp1 sp2 sp3 sp4)
  have secs: "sections ?raw = [[], ?A, ?B, ?C]"
    unfolding sections_def clean by (rule sp)
  have lA: "lower ?A = ''topics:] a, b''" and lB: "lower ?B = ''tl;dr:] x''" and lC: "lower ?C = ''summary:] y''"
    using assms by (simp_all add: lower_append) (simp_all add: lower_def lower_char_def)
  have sA: "startswith (lower ?A) ''topics:]''"
    and sB: "startswith (lower ?B) ''tl;dr:]''" and sC: "startswith (lower ?C) ''summary:]''"
    unfolding lA lB lC by (simp_all add: startswith_def)
  have s0: "\<not> startswith (lower []) ''topics:]''" "\<not> startswith (lower []) ''tl;dr:]''"
    "\<not> startswith (lower []) ''summary:]''"
    by (simp_all add: startswith_def lower_def)
  have vA: "strip (re_sub_ci ''Topics:]'' ?A) = ''a, b''"
  proof -
    have "re_sub_ci ''Topics:]'' ?A = re_sub_ci ''Topics:]'' (drop 8 ?A)"
      using sA by (rule re_sub_ci_label)
    also have "drop 8 ?A = '' a, b''" using len by simp
    also have "re_sub_ci ''Topics:]'' '' a, b'' = '' a, b''" by code_simp
    finally show ?thesis by (simp add: strip_def isspace_def)
  qed
  have vB: "strip (re_sub_ci ''TL;DR:]'' ?B) = ''x''"
  proof -
    have "re_sub_ci ''TL;DR:]'' ?B = re_sub_ci ''TL;DR:]'' (drop 7 ?B)"
      using sB by (rule re_sub_ci_label)
    also have "drop 7 ?B = '' x''" using len by simp
    also have "re_sub_ci ''TL;DR:]'' '' x'' = '' x''" by code_simp
    finally show ?thesis by (simp add: strip_def isspace_def)
  qed
  have vC: "strip (re_sub_ci ''Summary:]'' ?C) = ''y''"
  proof -
    have "re_sub_ci ''Summary:]'' ?C = re_sub_ci ''Summary:]'' (drop 9 ?C)"
      using sC by (rule re_sub_ci_label)
    also have "drop 9 ?C = '' y''" using len by simp
    also have "re_sub_ci ''Summary:]'' '' y'' = '' y''" by code_simp
    finally show ?thesis by (simp add: strip_def isspace_def)
  qed
  have tl: "map strip (split ''a, b'' CHR '','') = [''a'', ''b'']"
    by code_simp
  have w0: "web_section d [] = d" for d
    using s0 by (simp add: web_section_no_label)
  have wA: "web_section d ?A = dict_set d ''topics'' (PyList [''a'', ''b''])" for d
    using sA by (simp add: web_section_def vA) (simp add: strip_def isspace_def)
  have wB: "web_section d ?B = dict_set d ''tldr'' (PyStr ''x'')" for d
    using sB by (simp add: web_section_def vB labels_exclusive)
  have wC: "web_section d ?C = dict_set d ''summary'' (PyStr ''y'')" for d
    using sC by (simp add: web_section_def vC labels_exclusive)
  have "truthy (Some ?raw)" by (simp add: truthy_def)
  then show ?thesis
    by (simp add: web_paper_dict_def secs w0 wA wB wC del: append.simps append_Cons append_assoc)
qed

theorem well_formed_summary_parsed_witness:
  "lower ''TOPICS:'' = ''topics:'' \<and> lower ''Tl;Dr:'' = ''tl;dr:'' \<and> lower ''summary:'' = ''summary:''
   \<and> web_paper_dict
        \<lparr>title = ''T'', summary = Some ''[TOPICS:] a, b[Tl;Dr:] x[summary:] y'', pdf_url = None\<rparr>
      = [(''title'', PyStr ''T''), (''pdf_url'', PyNone), (''topics'', PyList [''a'', ''b'']),
         (''tldr'', PyStr ''x''), (''summary'', PyStr ''y'')]"
proof -
  have l: "lower ''TOPICS:'' = ''topics:''" "lower ''Tl;Dr:'' = ''tl;dr:''" "lower ''summary:'' = ''summary:''"
    by (simp_all add: lower_def lower_char_def char_of_eq_iff)
  from well_formed_summary_parsed [OF l, of "''T''" None] l show ?thesis by simp
qed

end
